theory Spec2Isabelle
  imports
    Complex_Main
    "HOL-Library.Char_ord"
    "HOL-Library.List_Lexorder"
    "HOL-Library.Product_Lexorder"
begin

section \<open>Python values used by the programs\<close>

text \<open>
  Measurements and percentages are Python floats; they are modelled as real numbers, so
  rounding error and NaN are outside the model.  Instants (pandas timestamps, datetimes)
  are whole seconds since a fixed epoch, as integers.
\<close>

datatype py_error = TypeError | ValueError | IndexError | KeyError

text \<open>\<^verbatim>\<open>int(x)\<close> on a float truncates towards zero.\<close>

definition py_int :: "real \<Rightarrow> int" where
  "py_int x = (if 0 \<le> x then \<lfloor>x\<rfloor> else \<lceil>x\<rceil>)"

text \<open>\<^verbatim>\<open>round(x, 2)\<close>: two decimals, ties to the even neighbour.\<close>

definition py_round2 :: "real \<Rightarrow> real" where
  "py_round2 x =
     (let y = x * 100; f = \<lfloor>y\<rfloor>; d = y - of_int f
      in of_int (if d < 1 / 2 then f else if 1 / 2 < d then f + 1
                 else if even f then f else f + 1) / 100)"

section \<open>dexcell\_extractor.py\<close>

subsection \<open>JSON payloads and the Python operators applied to them\<close>

datatype json =
    JNull
  | JBool bool
  | JNum real
  | JStr string
  | JArr "json list"
  | JObj "(string \<times> json) list"

text \<open>\<^verbatim>\<open>k in s\<close> for two strings: \<open>k\<close> occurs in \<open>s\<close> as a contiguous piece.\<close>

fun str_contains :: "string \<Rightarrow> string \<Rightarrow> bool" where
  "str_contains k [] = (k = [])"
| "str_contains k (c # cs) = (take (length k) (c # cs) = k \<or> str_contains k cs)"

text \<open>
  \<^verbatim>\<open>k in data\<close> for a string key \<open>k\<close>: key membership in a dict, element membership in a
  list, substring test in a string, and TypeError for a number, a boolean or null.
\<close>

fun py_in :: "string \<Rightarrow> json \<Rightarrow> py_error + bool" where
  "py_in k (JObj kvs) = Inr (k \<in> set (map fst kvs))"
| "py_in k (JArr xs) = Inr (JStr k \<in> set xs)"
| "py_in k (JStr s) = Inr (str_contains k s)"
| "py_in k _ = Inl TypeError"

text \<open>\<^verbatim>\<open>bool(data)\<close>.\<close>

fun py_truthy :: "json \<Rightarrow> bool" where
  "py_truthy JNull = False"
| "py_truthy (JBool b) = b"
| "py_truthy (JNum x) = (x \<noteq> 0)"
| "py_truthy (JStr s) = (s \<noteq> [])"
| "py_truthy (JArr xs) = (xs \<noteq> [])"
| "py_truthy (JObj kvs) = (kvs \<noteq> [])"

text \<open>
  \<^verbatim>\<open>data[k]\<close> for a string key \<open>k\<close>: the value stored in a dict (the last one,
  where the JSON text repeated the key; KeyError without one), TypeError for a list or a
  string, whose indices must be integers, and for a number, a boolean or null.
\<close>

fun py_getitem :: "json \<Rightarrow> string \<Rightarrow> py_error + json" where
  "py_getitem (JObj kvs) k =
     (case map_of (rev kvs) k of Some v \<Rightarrow> Inr v | None \<Rightarrow> Inl KeyError)"
| "py_getitem _ k = Inl TypeError"

text \<open>
  \<^verbatim>\<open>for item in v\<close>: the elements of a list, the keys of a dict (each once, in the
  order of their first occurrence), the characters of a string; TypeError otherwise.
\<close>

fun py_iter :: "json \<Rightarrow> py_error + json list" where
  "py_iter (JArr xs) = Inr xs"
| "py_iter (JObj kvs) = Inr (map JStr (rev (remdups (rev (map fst kvs)))))"
| "py_iter (JStr s) = Inr (map (\<lambda>c. JStr [c]) s)"
| "py_iter _ = Inl TypeError"

subsection \<open>The retry client\<close>

text \<open>
  What one call of \<^verbatim>\<open>requests.get\<close> can produce: a response with a status code and its
  body, a timeout, or another transport error.  The body is given as the JSON value that
  \<^verbatim>\<open>response.json()\<close> returns; a body that is not JSON is not modelled.  The server is a
  function from the number of the attempt to what that attempt produces.
\<close>

datatype outcome = Response int json | Timeout | RequestException

text \<open>The client's effects: the seconds slept, in order, and the requests issued.\<close>

record client_log =
  sleeps :: "nat list"
  requests :: nat

definition max_retries :: nat where "max_retries = 3"
definition base_wait :: nat where "base_wait = 1"
definition max_wait :: nat where "max_wait = 30"

definition sleep :: "nat \<Rightarrow> client_log \<Rightarrow> client_log" where
  "sleep w lg = lg\<lparr>sleeps := sleeps lg @ [w]\<rparr>"

text \<open>
  The loop \<^verbatim>\<open>for attempt in range(max_retries)\<close> of \<^verbatim>\<open>_make_request_with_retry\<close>, from
  attempt number \<open>attempt\<close> on.  The result is the exception that escapes (\<open>Inl\<close>), or the
  returned value: \<open>Some\<close> payload, or \<open>None\<close>.
\<close>

function attempts_from ::
  "(nat \<Rightarrow> outcome) \<Rightarrow> nat \<Rightarrow> client_log \<Rightarrow> (py_error + json option) \<times> client_log" where
  "attempts_from server attempt lg =
     (if attempt < max_retries then
        (let lg1 = lg\<lparr>requests := requests lg + 1\<rparr> in
         case server attempt of
           Response status_code body \<Rightarrow>
             if status_code = 200 then
               (case py_in ''values'' body of
                  Inl e \<Rightarrow> (Inl e, lg1)
                | Inr has_values \<Rightarrow>
                    if \<not> has_values then (Inr None, lg1) else (Inr (Some body), lg1))
             else if status_code = 401 then (Inr None, lg1)
             else if status_code = 429 then
               attempts_from server (attempt + 1)
                 (sleep (min (base_wait * 3 ^ attempt) max_wait) lg1)
             else if status_code \<in> {500, 502, 503, 504} then
               attempts_from server (attempt + 1)
                 (sleep (min (base_wait * 2 ^ attempt) max_wait) lg1)
             else (Inr None, lg1)
         | Timeout \<Rightarrow>
             attempts_from server (attempt + 1)
               (if attempt < max_retries - 1 then sleep (base_wait * 2 ^ attempt) lg1 else lg1)
         | RequestException \<Rightarrow>
             attempts_from server (attempt + 1)
               (if attempt < max_retries - 1 then sleep (base_wait * 2 ^ attempt) lg1 else lg1))
      else (Inr None, lg))"
  by pat_completeness auto
termination
  by (relation "measure (\<lambda>(server, attempt, lg). max_retries - attempt)") auto

definition make_request_with_retry ::
  "(nat \<Rightarrow> outcome) \<Rightarrow> (py_error + json option) \<times> client_log" where
  "make_request_with_retry server = attempts_from server 0 \<lparr>sleeps = [], requests = 0\<rparr>"

subsection \<open>Configuration, tasks and extracted readings\<close>

text \<open>
  The JSON configuration.  \<open>key_client_name\<close> is optional in the file (the extractor
  reads it with a default).

  Each class loads the file with a \<^verbatim>\<open>_load_config\<close> of its own.  That of the extractor
  requires \<^verbatim>\<open>api_keys\<close>, \<^verbatim>\<open>params\<close>, \<^verbatim>\<open>request_type\<close> and \<^verbatim>\<open>devices\<close>, the fields of
  \<open>base_config\<close>; it does not require \<^verbatim>\<open>start_date\<close> and \<^verbatim>\<open>end_date\<close>, which are
  therefore optional in \<open>extractor_config\<close>, the configuration as the extractor holds it
  (the strings of the file, which it sends to the API unparsed).  The loaders of the
  analyzers require the two dates, and the analyzers parse them: \<open>config\<close> is the
  configuration as an analyzer holds it, with the parsed instants.
\<close>

record api_key =
  token :: string
  key_client_name :: "string option"

record device =
  d_device_id :: int
  d_name :: string
  d_param :: string

record base_config =
  api_keys :: "api_key list"
  params :: "string list"
  request_type :: string
  devices :: "device list"

record config = base_config +
  start_date :: int
  end_date :: int

record extractor_config = base_config +
  x_start_date :: "string option"
  x_end_date :: "string option"

record task =
  t_token :: string
  t_client_name :: string
  t_device_id :: int
  t_device_name :: string
  t_param_key :: string

text \<open>
  One extracted record.  The timestamp and the value are the JSON values of the response,
  copied unchanged.  The field \<^verbatim>\<open>extraction_date\<close> holds the wall clock at the time of the
  call and is not modelled.
\<close>

record reading =
  x_client_name :: string
  x_device_id :: int
  x_device_name :: string
  x_param_key :: string
  x_timestamp :: json
  x_value :: json

subsection \<open>One task: \<^verbatim>\<open>_extract_device_data\<close>\<close>

text \<open>
  The loop over \<^verbatim>\<open>response_data['values']\<close>.  The test
  \<^verbatim>\<open>'ts' not in item or 'v' not in item\<close> evaluates its second half only when the first is
  false.
\<close>

fun process_items :: "task \<Rightarrow> json list \<Rightarrow> reading list \<Rightarrow> py_error + reading list" where
  "process_items t [] results = Inr results"
| "process_items t (item # items) results =
     (case py_in ''ts'' item of
        Inl e \<Rightarrow> Inl e
      | Inr has_ts \<Rightarrow>
          if \<not> has_ts then process_items t items results
          else
            (case py_in ''v'' item of
               Inl e \<Rightarrow> Inl e
             | Inr has_v \<Rightarrow>
                 if \<not> has_v then process_items t items results
                 else
                   (case py_getitem item ''ts'' of
                      Inl e \<Rightarrow> Inl e
                    | Inr ts \<Rightarrow>
                        (case py_getitem item ''v'' of
                           Inl e \<Rightarrow> Inl e
                         | Inr v \<Rightarrow>
                             process_items t items
                               (results @
                                [\<lparr>x_client_name = t_client_name t,
                                  x_device_id = t_device_id t,
                                  x_device_name = t_device_name t,
                                  x_param_key = t_param_key t,
                                  x_timestamp = ts,
                                  x_value = v\<rparr>])))))"

text \<open>
  The query parameters of the request of one task.  The dictionary is built entry by
  entry: \<^verbatim>\<open>self.config['start_date']\<close> is read first, then \<^verbatim>\<open>self.config['end_date']\<close>,
  and a key that the configuration does not have raises KeyError.
\<close>

record request =
  rq_device_id :: int
  rq_operation :: string
  rq_parameter_key :: string
  rq_resolution :: string
  rq_from :: string
  rq_to :: string

definition request_params :: "extractor_config \<Rightarrow> task \<Rightarrow> py_error + request" where
  "request_params cfg t =
     (let resolution = (if request_type cfg = ''hourly'' then ''H'' else ''M'')
      in case x_start_date cfg of
           None \<Rightarrow> Inl KeyError
         | Some from_date \<Rightarrow>
             (case x_end_date cfg of
                None \<Rightarrow> Inl KeyError
              | Some to_date \<Rightarrow>
                  Inr \<lparr>rq_device_id = t_device_id t,
                       rq_operation = ''DELTA'',
                       rq_parameter_key = t_param_key t,
                       rq_resolution = resolution,
                       rq_from = from_date,
                       rq_to = to_date\<rparr>))"

text \<open>
  The worker.  It builds the query parameters before it makes the request, so that a
  configuration without one of the dates makes it raise before any request is sent.  The
  URL, the headers and the query parameters only select what the server answers, which is
  the argument \<open>server\<close> here.
\<close>

definition extract_device_data ::
  "extractor_config \<Rightarrow> (nat \<Rightarrow> outcome) \<Rightarrow> task \<Rightarrow> py_error + reading list" where
  "extract_device_data cfg server t =
     (case request_params cfg t of
        Inl e \<Rightarrow> Inl e
      | Inr query \<Rightarrow>
          (case fst (make_request_with_retry server) of
             Inl e \<Rightarrow> Inl e
           | Inr None \<Rightarrow> Inr []
           | Inr (Some response_data) \<Rightarrow>
               if \<not> py_truthy response_data then Inr []
               else
                 (case py_in ''values'' response_data of
                    Inl e \<Rightarrow> Inl e
                  | Inr has_values \<Rightarrow>
                      if \<not> has_values then Inr []
                      else
                        (case py_getitem response_data ''values'' of
                           Inl e \<Rightarrow> Inl e
                         | Inr vals \<Rightarrow>
                             (case py_iter vals of
                                Inl e \<Rightarrow> Inl e
                              | Inr items \<Rightarrow> process_items t items [])))))"

subsection \<open>The engine: \<^verbatim>\<open>extract_data\<close>\<close>

text \<open>The task dictionary built for one API key and one device.\<close>

definition make_task :: "string \<Rightarrow> string \<Rightarrow> device \<Rightarrow> task" where
  "make_task tok client d =
     \<lparr>t_token = tok,
      t_client_name = client,
      t_device_id = d_device_id d,
      t_device_name = d_name d,
      t_param_key = d_param d\<rparr>"

text \<open>The inner loop \<^verbatim>\<open>for device in self.config['devices']\<close>, appending to \<open>tasks\<close>.\<close>

fun device_loop :: "'a base_config_scheme \<Rightarrow> string \<Rightarrow> string \<Rightarrow> device list \<Rightarrow> task list \<Rightarrow> task list" where
  "device_loop cfg tok client [] tasks = tasks"
| "device_loop cfg tok client (d # ds) tasks =
     (if d_param d \<notin> set (params cfg) then device_loop cfg tok client ds tasks
      else device_loop cfg tok client ds (tasks @ [make_task tok client d]))"

text \<open>\<^verbatim>\<open>api_key_info.get('client_name', 'Unknown Client')\<close>.\<close>

definition client_name_of :: "api_key \<Rightarrow> string" where
  "client_name_of k = (case key_client_name k of None \<Rightarrow> ''Unknown Client'' | Some c \<Rightarrow> c)"

text \<open>The outer loop \<^verbatim>\<open>for api_key_info in self.config['api_keys']\<close>.\<close>

fun api_key_loop :: "'a base_config_scheme \<Rightarrow> api_key list \<Rightarrow> task list \<Rightarrow> task list" where
  "api_key_loop cfg [] tasks = tasks"
| "api_key_loop cfg (k # ks) tasks =
     api_key_loop cfg ks (device_loop cfg (token k) (client_name_of k) (devices cfg) tasks)"

definition build_tasks :: "'a base_config_scheme \<Rightarrow> task list" where
  "build_tasks cfg = api_key_loop cfg (api_keys cfg) []"

text \<open>
  The sequential branch (\<^verbatim>\<open>max_workers == 1\<close>): the tasks in order, \<open>i\<close> the index of the
  next one.  An exception of a worker is not caught here and ends the run.
\<close>

fun sequential_loop ::
  "(nat \<Rightarrow> task \<Rightarrow> py_error + reading list) \<Rightarrow> nat \<Rightarrow> task list \<Rightarrow>
   reading list \<times> task list \<Rightarrow> py_error + reading list \<times> task list" where
  "sequential_loop worker i [] st = Inr st"
| "sequential_loop worker i (t # ts) (all_results, failed_tasks) =
     (case worker i t of
        Inl e \<Rightarrow> Inl e
      | Inr results \<Rightarrow>
          if results \<noteq> [] then sequential_loop worker (i + 1) ts (all_results @ results, failed_tasks)
          else sequential_loop worker (i + 1) ts (all_results, failed_tasks @ [t]))"

text \<open>
  The concurrent branch: every task is submitted, and the futures are handled by the
  calling thread in the order in which they complete.  That order is not determined by the
  program; it is the argument \<open>order\<close>, a list of task indices.  An exception of a worker
  is caught here and the task recorded as failed.
\<close>

fun completed_loop ::
  "(nat \<Rightarrow> task \<Rightarrow> py_error + reading list) \<Rightarrow> task list \<Rightarrow> nat list \<Rightarrow>
   reading list \<times> task list \<Rightarrow> reading list \<times> task list" where
  "completed_loop worker tasks [] st = st"
| "completed_loop worker tasks (i # order) (all_results, failed_tasks) =
     (case worker i (tasks ! i) of
        Inl e \<Rightarrow> completed_loop worker tasks order (all_results, failed_tasks @ [tasks ! i])
      | Inr results \<Rightarrow>
          if results \<noteq> [] then completed_loop worker tasks order (all_results @ results, failed_tasks)
          else completed_loop worker tasks order (all_results, failed_tasks @ [tasks ! i]))"

text \<open>What the run leaves: the result collection and the figures of the summary log.\<close>

record extraction =
  all_results :: "reading list"
  failed_tasks :: "task list"
  total_tasks :: nat
  successful :: nat
  failed :: nat
  success_rate :: real
  total_records :: nat

definition summarise :: "nat \<Rightarrow> reading list \<times> task list \<Rightarrow> extraction" where
  "summarise n st =
     \<lparr>all_results = fst st,
      failed_tasks = snd st,
      total_tasks = n,
      successful = n - length (snd st),
      failed = length (snd st),
      success_rate =
        (if 0 < n then real (n - length (snd st)) / real n * 100 else 0),
      total_records = length (fst st)\<rparr>"

text \<open>
  \<^verbatim>\<open>extract_data\<close>.  \<open>servers i\<close> answers the requests of the \<open>i\<close>-th task.  A thread pool
  of fewer than one worker cannot be created (ValueError).
\<close>

definition extract_data ::
  "extractor_config \<Rightarrow> int \<Rightarrow> (nat \<Rightarrow> nat \<Rightarrow> outcome) \<Rightarrow> nat list \<Rightarrow> py_error + extraction" where
  "extract_data cfg max_workers servers order =
     (let tasks = build_tasks cfg;
          n = length tasks;
          worker = (\<lambda>i t. extract_device_data cfg (servers i) t)
      in if max_workers = 1 then
           (case sequential_loop worker 0 tasks ([], []) of
              Inl e \<Rightarrow> Inl e
            | Inr st \<Rightarrow> Inr (summarise n st))
         else if max_workers \<le> 0 then Inl ValueError
         else Inr (summarise n (completed_loop worker tasks order ([], []))))"

text \<open>
  The result of the worker on the \<open>i\<close>-th task of a run, and what the engine takes from
  such a result: its readings, and none from a worker that raised.  A task has succeeded
  when this list is not empty.
\<close>

definition returned :: "py_error + reading list \<Rightarrow> reading list" where
  "returned r = (case r of Inl e \<Rightarrow> [] | Inr results \<Rightarrow> results)"

definition task_result ::
  "extractor_config \<Rightarrow> (nat \<Rightarrow> nat \<Rightarrow> outcome) \<Rightarrow> nat \<Rightarrow> py_error + reading list" where
  "task_result cfg servers i = extract_device_data cfg (servers i) (build_tasks cfg ! i)"

text \<open>
  The shape of a response body that the API documents: a JSON object whose \<^verbatim>\<open>values\<close>,
  when present, is an array of objects.  A server is conforming when every 200 it sends
  within the attempts of the client has such a body.
\<close>

fun is_object :: "json \<Rightarrow> bool" where
  "is_object (JObj kvs) = True"
| "is_object _ = False"

fun conforming_body :: "json \<Rightarrow> bool" where
  "conforming_body (JObj kvs) =
     (case map_of (rev kvs) ''values'' of
        None \<Rightarrow> True
      | Some (JArr items) \<Rightarrow> list_all is_object items
      | Some _ \<Rightarrow> False)"
| "conforming_body _ = False"

definition conforming_server :: "(nat \<Rightarrow> outcome) \<Rightarrow> bool" where
  "conforming_server server =
     list_all (\<lambda>attempt. case server attempt of
                            Response status_code body \<Rightarrow> status_code = 200 \<longrightarrow> conforming_body body
                          | _ \<Rightarrow> True) [0..<max_retries]"

section \<open>The analyzers: what they share\<close>

text \<open>
  The extracted-data CSV as the analyzers read it.  The columns \<^verbatim>\<open>device_id\<close>,
  \<^verbatim>\<open>device_name\<close>, \<^verbatim>\<open>param_key\<close>, \<^verbatim>\<open>timestamp\<close> and \<^verbatim>\<open>value\<close> are required by the
  loaders, \<^verbatim>\<open>client_name\<close> is optional: \<open>has_client_name\<close> says whether the table has it.
\<close>

record row =
  r_client_name :: string
  r_device_id :: int
  r_device_name :: string
  r_param_key :: string
  r_timestamp :: int
  r_value :: real

record frame =
  has_client_name :: bool
  rows :: "row list"

text \<open>
  \<^verbatim>\<open>_load_data\<close>, the same in the three modules: the timestamps are read as UTC, moved
  one hour forward and made naive.
\<close>

definition load_data :: "frame \<Rightarrow> frame" where
  "load_data csv = csv\<lparr>rows := map (\<lambda>r. r\<lparr>r_timestamp := r_timestamp r + 3600\<rparr>) (rows csv)\<rparr>"

text \<open>
  \<^verbatim>\<open>device_data['client_name'].iloc[0] if 'client_name' in device_data.columns else 'Unknown'\<close>:
  the first row of an empty table does not exist (IndexError).
\<close>

definition first_client_name :: "frame \<Rightarrow> py_error + string" where
  "first_client_name device_data =
     (if has_client_name device_data then
        (case rows device_data of [] \<Rightarrow> Inl IndexError | r # _ \<Rightarrow> Inr (r_client_name r))
      else Inr ''Unknown'')"

text \<open>
  Iterating over \<^verbatim>\<open>DataFrame.groupby(columns)\<close>: one group per distinct key, the keys in
  ascending order, each group holding the rows of its key in the order of the table.
\<close>

definition groupby :: "(row \<Rightarrow> 'k::linorder) \<Rightarrow> row list \<Rightarrow> ('k \<times> row list) list" where
  "groupby key rs =
     map (\<lambda>k. (k, filter (\<lambda>r. key r = k) rs)) (sort (remdups (map key rs)))"

text \<open>
  The state of an analyzer object: the configuration, the prepared table and the analysis
  window.  The lookup \<^verbatim>\<open>{(d['device_id'], d['param']): d for d in config['devices']}\<close> keeps
  the last device of each pair.
\<close>

record analyzer =
  an_config :: config
  an_data :: frame
  analysis_start_date :: int
  analysis_end_date :: int

definition device_config :: "config \<Rightarrow> int \<times> string \<Rightarrow> device option" where
  "device_config cfg = map_of (rev (map (\<lambda>d. ((d_device_id d, d_param d), d)) (devices cfg)))"

text \<open>
  A pair of device and parameter corresponds to an entry of the configuration.
  \<open>drop_unconfigured\<close> removes from the table of an analyzer the rows of all other pairs.
\<close>

definition configured :: "config \<Rightarrow> int \<times> string \<Rightarrow> bool" where
  "configured cfg pair = (pair \<in> set (map (\<lambda>d. (d_device_id d, d_param d)) (devices cfg)))"

definition drop_unconfigured :: "'a analyzer_scheme \<Rightarrow> 'a analyzer_scheme" where
  "drop_unconfigured an =
     an\<lparr>an_data := (an_data an)
          \<lparr>rows := filter (\<lambda>r. configured (an_config an) (r_device_id r, r_param_key r))
                     (rows (an_data an))\<rparr>\<rparr>"

definition in_period :: "'a analyzer_scheme \<Rightarrow> row \<Rightarrow> bool" where
  "in_period an r =
     (analysis_start_date an \<le> r_timestamp r \<and> r_timestamp r \<le> analysis_end_date an)"

text \<open>
  The filter to the analysis period and the sort by device, parameter and time, as in
  \<^verbatim>\<open>_prepare_hourly_analysis\<close>, \<^verbatim>\<open>_prepare_trend_analysis\<close> and
  \<^verbatim>\<open>_prepare_time_analysis\<close>.
\<close>

definition filter_and_sort :: "'a analyzer_scheme \<Rightarrow> 'a analyzer_scheme" where
  "filter_and_sort an =
     an\<lparr>an_data := (an_data an)
          \<lparr>rows := sort_key (\<lambda>r. (r_device_id r, r_param_key r, r_timestamp r))
                     (filter (in_period an) (rows (an_data an)))\<rparr>\<rparr>"

section \<open>data\_quality\_check.py\<close>

definition quality_analyzer_init :: "config \<Rightarrow> frame \<Rightarrow> analyzer" where
  "quality_analyzer_init cfg csv =
     filter_and_sort
       \<lparr>an_config = cfg, an_data = load_data csv,
        analysis_start_date = start_date cfg, analysis_end_date = end_date cfg\<rparr>"

definition calculate_expected_points :: "'a analyzer_scheme \<Rightarrow> int" where
  "calculate_expected_points an =
     (let delta = analysis_end_date an - analysis_start_date an;
          total_hours = py_int (real_of_int delta / 3600)
      in total_hours + 1)"

text \<open>The wall-clock field \<^verbatim>\<open>analysis_date\<close> is not modelled.\<close>

record quality_result =
  q_client_name :: string
  q_device_id :: int
  q_device_name :: string
  q_param_key :: string
  q_analysis_period_start :: int
  q_analysis_period_end :: int
  q_expected_points :: int
  q_actual_points :: nat
  q_completeness_percentage :: real
  q_zero_count :: nat
  q_zero_percentage :: real
  q_negative_count :: nat
  q_negative_percentage :: real
  q_quality_flags :: "string list"
  q_is_flagged :: bool

definition analyze_device_quality ::
  "analyzer \<Rightarrow> frame \<Rightarrow> int \<Rightarrow> string \<Rightarrow> string \<Rightarrow> py_error + quality_result" where
  "analyze_device_quality an device_data device_id device_name param_key =
     (let expected_points = calculate_expected_points an;
          actual_points = length (rows device_data);
          completeness =
            (if 0 < expected_points then real actual_points / real_of_int expected_points * 100
             else 0);
          zero_count = length (filter (\<lambda>r. r_value r = 0) (rows device_data));
          zero_percentage =
            (if 0 < actual_points then real zero_count / real actual_points * 100 else 0);
          negative_count = length (filter (\<lambda>r. r_value r < 0) (rows device_data));
          negative_percentage =
            (if 0 < actual_points then real negative_count / real actual_points * 100 else 0);
          quality_flags =
            (if completeness < 90 then [''Poor Completeness''] else []) @
            (if 10 < zero_percentage then [''High Zero Values''] else []) @
            (if 0 < negative_percentage then [''Negative Values''] else [])
      in case first_client_name device_data of
           Inl e \<Rightarrow> Inl e
         | Inr client \<Rightarrow>
             Inr \<lparr>q_client_name = client,
                  q_device_id = device_id,
                  q_device_name = device_name,
                  q_param_key = param_key,
                  q_analysis_period_start = analysis_start_date an,
                  q_analysis_period_end = analysis_end_date an,
                  q_expected_points = expected_points,
                  q_actual_points = actual_points,
                  q_completeness_percentage = py_round2 completeness,
                  q_zero_count = zero_count,
                  q_zero_percentage = py_round2 zero_percentage,
                  q_negative_count = negative_count,
                  q_negative_percentage = py_round2 negative_percentage,
                  q_quality_flags = quality_flags,
                  q_is_flagged = (0 < length quality_flags)\<rparr>)"

text \<open>
  The loop of \<^verbatim>\<open>analyze_quality\<close> over the groups.  Its state is the list of results and
  the warnings printed so far, each warning recorded as the device and parameter it
  names: a group without a configuration entry is passed over with a warning, and one
  whose analysis raises is passed over too (its error line is not recorded).
\<close>

fun quality_loop ::
  "analyzer \<Rightarrow> ((int \<times> string \<times> string) \<times> row list) list \<Rightarrow>
   quality_result list \<times> (int \<times> string) list \<Rightarrow> quality_result list \<times> (int \<times> string) list" where
  "quality_loop an [] st = st"
| "quality_loop an (((device_id, device_name, param_key), grp) # groups)
     (analysis_results, warnings) =
     (case device_config (an_config an) (device_id, param_key) of
        None \<Rightarrow> quality_loop an groups (analysis_results, warnings @ [(device_id, param_key)])
      | Some device_info \<Rightarrow>
          (case analyze_device_quality an ((an_data an)\<lparr>rows := grp\<rparr>)
                  device_id device_name param_key of
             Inl e \<Rightarrow> quality_loop an groups (analysis_results, warnings)
           | Inr result \<Rightarrow> quality_loop an groups (analysis_results @ [result], warnings)))"

definition analyze_quality :: "analyzer \<Rightarrow> quality_result list" where
  "analyze_quality an =
     fst (quality_loop an
       (groupby (\<lambda>r. (r_device_id r, r_device_name r, r_param_key r)) (rows (an_data an)))
       ([], []))"

definition analyze_quality_warnings :: "analyzer \<Rightarrow> (int \<times> string) list" where
  "analyze_quality_warnings an =
     snd (quality_loop an
       (groupby (\<lambda>r. (r_device_id r, r_device_name r, r_param_key r)) (rows (an_data an)))
       ([], []))"

section \<open>trend\_check.py\<close>

record trend_analyzer = analyzer +
  trend_threshold :: real

text \<open>\<^verbatim>\<open>_validate_data_period\<close>: \<^verbatim>\<open>timedelta.days\<close> is the number of whole days, rounded down.\<close>

definition validate_data_period :: "'a analyzer_scheme \<Rightarrow> py_error + unit" where
  "validate_data_period an =
     (let period_duration = analysis_end_date an - analysis_start_date an
      in if period_duration div 86400 < 7 then Inl ValueError else Inr ())"

definition trend_analyzer_init :: "config \<Rightarrow> frame \<Rightarrow> real \<Rightarrow> py_error + trend_analyzer" where
  "trend_analyzer_init cfg csv threshold =
     (if threshold < 0 \<or> 100 < threshold then Inl ValueError
      else
        (let an = \<lparr>an_config = cfg, an_data = load_data csv,
                   analysis_start_date = start_date cfg, analysis_end_date = end_date cfg,
                   trend_threshold = threshold\<rparr>
         in case validate_data_period an of
              Inl e \<Rightarrow> Inl e
            | Inr _ \<Rightarrow> Inr (filter_and_sort an)))"

text \<open>
  \<^verbatim>\<open>_split_data_into_weeks\<close>.  The midpoint of two whole-second instants may fall on a half
  second; a whole-second timestamp is at most that midpoint exactly when it is at most the
  midpoint rounded down.
\<close>

definition split_data_into_weeks :: "frame \<Rightarrow> py_error + frame \<times> frame" where
  "split_data_into_weeks device_data =
     (if rows device_data = [] then Inl ValueError
      else
        (let sorted_rows = sort_key r_timestamp (rows device_data);
             min_timestamp = Min (set (map r_timestamp sorted_rows));
             max_timestamp = Max (set (map r_timestamp sorted_rows));
             midpoint_timestamp = min_timestamp + (max_timestamp - min_timestamp) div 2
         in Inr (device_data\<lparr>rows := filter (\<lambda>r. r_timestamp r \<le> midpoint_timestamp) sorted_rows\<rparr>,
                 device_data\<lparr>rows := filter (\<lambda>r. midpoint_timestamp < r_timestamp r) sorted_rows\<rparr>)))"

record period_stats =
  ps_total :: real
  ps_average :: real
  ps_count :: nat
  ps_min_value :: real
  ps_max_value :: real
  ps_zero_count :: nat

definition calculate_period_totals :: "frame \<Rightarrow> period_stats" where
  "calculate_period_totals period_data =
     (if rows period_data = [] then
        \<lparr>ps_total = 0, ps_average = 0, ps_count = 0,
         ps_min_value = 0, ps_max_value = 0, ps_zero_count = 0\<rparr>
      else
        (let numeric_values = map r_value (rows period_data)
         in \<lparr>ps_total = sum_list numeric_values,
              ps_average =
                (if 0 < length numeric_values
                 then sum_list numeric_values / real (length numeric_values) else 0),
              ps_count = length numeric_values,
              ps_min_value = (if 0 < length numeric_values then Min (set numeric_values) else 0),
              ps_max_value = (if 0 < length numeric_values then Max (set numeric_values) else 0),
              ps_zero_count = length (filter (\<lambda>v. v = 0) numeric_values)\<rparr>))"

text \<open>The local \<^verbatim>\<open>percentage_change\<close> is a float that may be \<^verbatim>\<open>float('inf')\<close>.\<close>

datatype pyfloat = Finite real | Infinity

record trend_metrics =
  tm_percentage_change :: real
  tm_absolute_difference :: real
  tm_trend_direction :: string
  tm_is_flagged :: bool
  tm_baseline_period :: real
  tm_comparison_period :: real

text \<open>
  \<^verbatim>\<open>_calculate_trend_variance\<close>.  The direction assigned in the first \<^verbatim>\<open>if\<close> of the source
  is overwritten by the chain that follows it, which is what decides.
\<close>

definition calculate_trend_variance :: "real \<Rightarrow> real \<Rightarrow> real \<Rightarrow> trend_metrics" where
  "calculate_trend_variance threshold period1_total period2_total =
     (let percentage_change =
            (if period1_total = 0 then
               (if period2_total = 0 then Finite 0 else Infinity)
             else Finite ((period2_total - period1_total) / period1_total * 100));
          trend_direction =
            (case percentage_change of
               Infinity \<Rightarrow> ''significant_increase''
             | Finite x \<Rightarrow>
                 if \<bar>x\<bar> \<le> threshold then ''stable''
                 else if threshold < x then ''increasing''
                 else ''decreasing'');
          is_significant_trend =
            (case percentage_change of Infinity \<Rightarrow> True | Finite x \<Rightarrow> threshold < \<bar>x\<bar>)
      in \<lparr>tm_percentage_change =
             (case percentage_change of Infinity \<Rightarrow> 999.99 | Finite x \<Rightarrow> x),
           tm_absolute_difference = period2_total - period1_total,
           tm_trend_direction = trend_direction,
           tm_is_flagged = is_significant_trend,
           tm_baseline_period = period1_total,
           tm_comparison_period = period2_total\<rparr>)"

text \<open>
  A trend record.  The record written when the analysis of a group fails has no minimum
  and maximum fields and carries the error message.  The wall-clock field
  \<^verbatim>\<open>analysis_date\<close> is not modelled.
\<close>

record trend_result =
  tr_client_name :: string
  tr_device_id :: int
  tr_device_name :: string
  tr_param_key :: string
  tr_analysis_period_start :: int
  tr_analysis_period_end :: int
  tr_period1_total :: real
  tr_period1_average :: real
  tr_period1_count :: nat
  tr_period1_min :: "real option"
  tr_period1_max :: "real option"
  tr_period2_total :: real
  tr_period2_average :: real
  tr_period2_count :: nat
  tr_period2_min :: "real option"
  tr_period2_max :: "real option"
  tr_percentage_change :: real
  tr_absolute_difference :: real
  tr_trend_direction :: string
  tr_is_flagged :: bool
  tr_threshold_used :: real
  tr_total_data_points :: nat
  tr_error :: "string option"

definition analyze_device_trend ::
  "trend_analyzer \<Rightarrow> frame \<Rightarrow> int \<Rightarrow> string \<Rightarrow> string \<Rightarrow> py_error + trend_result" where
  "analyze_device_trend an device_data device_id device_name param_key =
     (case split_data_into_weeks device_data of
        Inr (period1_data, period2_data) \<Rightarrow>
          (let period1_stats = calculate_period_totals period1_data;
               period2_stats = calculate_period_totals period2_data;
               trend_metrics =
                 calculate_trend_variance (trend_threshold an)
                   (ps_total period1_stats) (ps_total period2_stats)
           in case first_client_name device_data of
                Inl e \<Rightarrow> Inl e
              | Inr client \<Rightarrow>
                  Inr \<lparr>tr_client_name = client,
                       tr_device_id = device_id,
                       tr_device_name = device_name,
                       tr_param_key = param_key,
                       tr_analysis_period_start = analysis_start_date an,
                       tr_analysis_period_end = analysis_end_date an,
                       tr_period1_total = py_round2 (ps_total period1_stats),
                       tr_period1_average = py_round2 (ps_average period1_stats),
                       tr_period1_count = ps_count period1_stats,
                       tr_period1_min = Some (py_round2 (ps_min_value period1_stats)),
                       tr_period1_max = Some (py_round2 (ps_max_value period1_stats)),
                       tr_period2_total = py_round2 (ps_total period2_stats),
                       tr_period2_average = py_round2 (ps_average period2_stats),
                       tr_period2_count = ps_count period2_stats,
                       tr_period2_min = Some (py_round2 (ps_min_value period2_stats)),
                       tr_period2_max = Some (py_round2 (ps_max_value period2_stats)),
                       tr_percentage_change = py_round2 (tm_percentage_change trend_metrics),
                       tr_absolute_difference = py_round2 (tm_absolute_difference trend_metrics),
                       tr_trend_direction = tm_trend_direction trend_metrics,
                       tr_is_flagged = tm_is_flagged trend_metrics,
                       tr_threshold_used = trend_threshold an,
                       tr_total_data_points = length (rows device_data),
                       tr_error = None\<rparr>)
      | Inl e \<Rightarrow>
          (case first_client_name device_data of
             Inl e' \<Rightarrow> Inl e'
           | Inr client \<Rightarrow>
               Inr \<lparr>tr_client_name = client,
                    tr_device_id = device_id,
                    tr_device_name = device_name,
                    tr_param_key = param_key,
                    tr_analysis_period_start = analysis_start_date an,
                    tr_analysis_period_end = analysis_end_date an,
                    tr_period1_total = 0,
                    tr_period1_average = 0,
                    tr_period1_count = 0,
                    tr_period1_min = None,
                    tr_period1_max = None,
                    tr_period2_total = 0,
                    tr_period2_average = 0,
                    tr_period2_count = 0,
                    tr_period2_min = None,
                    tr_period2_max = None,
                    tr_percentage_change = 0,
                    tr_absolute_difference = 0,
                    tr_trend_direction = ''error'',
                    tr_is_flagged = True,
                    tr_threshold_used = trend_threshold an,
                    tr_total_data_points = length (rows device_data),
                    tr_error = Some ''Cannot split empty device data into periods''\<rparr>))"

text \<open>The loop of \<^verbatim>\<open>analyze_trends\<close>, with the same state as that of the quality analysis.\<close>

fun trend_loop ::
  "trend_analyzer \<Rightarrow> ((int \<times> string \<times> string) \<times> row list) list \<Rightarrow>
   trend_result list \<times> (int \<times> string) list \<Rightarrow> trend_result list \<times> (int \<times> string) list" where
  "trend_loop an [] st = st"
| "trend_loop an (((device_id, device_name, param_key), grp) # groups)
     (analysis_results, warnings) =
     (case device_config (an_config an) (device_id, param_key) of
        None \<Rightarrow> trend_loop an groups (analysis_results, warnings @ [(device_id, param_key)])
      | Some device_info \<Rightarrow>
          (case analyze_device_trend an ((an_data an)\<lparr>rows := grp\<rparr>)
                  device_id device_name param_key of
             Inl e \<Rightarrow> trend_loop an groups (analysis_results, warnings)
           | Inr result \<Rightarrow> trend_loop an groups (analysis_results @ [result], warnings)))"

definition analyze_trends :: "trend_analyzer \<Rightarrow> trend_result list" where
  "analyze_trends an =
     fst (trend_loop an
       (groupby (\<lambda>r. (r_device_id r, r_device_name r, r_param_key r)) (rows (an_data an)))
       ([], []))"

definition analyze_trends_warnings :: "trend_analyzer \<Rightarrow> (int \<times> string) list" where
  "analyze_trends_warnings an =
     snd (trend_loop an
       (groupby (\<lambda>r. (r_device_id r, r_device_name r, r_param_key r)) (rows (an_data an)))
       ([], []))"

section \<open>working\_hours\_check.py\<close>

record ooh_analyzer = analyzer +
  out_of_hours_threshold :: real

text \<open>The boundaries 07:00 and 19:00, in seconds after midnight.\<close>

definition working_hours_start :: int where "working_hours_start = 7 * 3600"
definition working_hours_end :: int where "working_hours_end = 19 * 3600"

text \<open>
  The columns that \<^verbatim>\<open>_prepare_time_analysis\<close> adds are functions of the timestamp: the
  calendar day (counted from the epoch), the time of day, and the working-hours flag.
\<close>

definition date_of :: "row \<Rightarrow> int" where
  "date_of r = r_timestamp r div 86400"

definition time_only :: "row \<Rightarrow> int" where
  "time_only r = r_timestamp r mod 86400"

definition is_working_hours :: "row \<Rightarrow> bool" where
  "is_working_hours r = (working_hours_start \<le> time_only r \<and> time_only r < working_hours_end)"

definition ooh_analyzer_init :: "config \<Rightarrow> frame \<Rightarrow> real \<Rightarrow> py_error + ooh_analyzer" where
  "ooh_analyzer_init cfg csv threshold =
     (if \<not> (0 \<le> threshold \<and> threshold \<le> 100) then Inl ValueError
      else
        Inr (filter_and_sort
               \<lparr>an_config = cfg, an_data = load_data csv,
                analysis_start_date = start_date cfg, analysis_end_date = end_date cfg,
                out_of_hours_threshold = threshold\<rparr>))"

record consumption_stats =
  cs_working_hours_consumption :: real
  cs_out_of_hours_consumption :: real
  cs_total_consumption :: real
  cs_out_of_hours_percentage :: real
  cs_data_points_working :: nat
  cs_data_points_out_of_hours :: nat

definition calculate_daily_consumption :: "frame \<Rightarrow> consumption_stats" where
  "calculate_daily_consumption device_data =
     (if rows device_data = [] then
        \<lparr>cs_working_hours_consumption = 0, cs_out_of_hours_consumption = 0,
         cs_total_consumption = 0, cs_out_of_hours_percentage = 0,
         cs_data_points_working = 0, cs_data_points_out_of_hours = 0\<rparr>
      else
        (let working_hours_data = filter (\<lambda>r. is_working_hours r = True) (rows device_data);
             working_hours_consumption = sum_list (map r_value working_hours_data);
             out_of_hours_data = filter (\<lambda>r. is_working_hours r = False) (rows device_data);
             out_of_hours_consumption = sum_list (map r_value out_of_hours_data);
             total_consumption = working_hours_consumption + out_of_hours_consumption;
             out_of_hours_percentage =
               (if 0 < total_consumption then out_of_hours_consumption / total_consumption * 100
                else 0)
         in \<lparr>cs_working_hours_consumption = working_hours_consumption,
              cs_out_of_hours_consumption = out_of_hours_consumption,
              cs_total_consumption = total_consumption,
              cs_out_of_hours_percentage = out_of_hours_percentage,
              cs_data_points_working = length working_hours_data,
              cs_data_points_out_of_hours = length out_of_hours_data\<rparr>))"

text \<open>
  The two messages of \<^verbatim>\<open>_identify_consumption_issues\<close>; the second one quotes the
  threshold.
\<close>

datatype issue = Exceeds_working_hours | Exceeds_threshold real

definition identify_consumption_issues :: "real \<Rightarrow> consumption_stats \<Rightarrow> bool \<times> issue list" where
  "identify_consumption_issues threshold stats =
     (let working_hours = cs_working_hours_consumption stats;
          out_of_hours = cs_out_of_hours_consumption stats;
          out_of_hours_pct = cs_out_of_hours_percentage stats;
          issues =
            (if working_hours < out_of_hours then [Exceeds_working_hours] else []) @
            (if threshold < out_of_hours_pct then [Exceeds_threshold threshold] else []);
          is_flagged = (0 < length issues)
      in (is_flagged, issues))"

text \<open>The wall-clock field \<^verbatim>\<open>analysis_timestamp\<close> is not modelled.\<close>

record ooh_result =
  o_client_name :: string
  o_analysis_date :: int
  o_device_id :: int
  o_device_name :: string
  o_param_key :: string
  o_analysis_period_start :: int
  o_analysis_period_end :: int
  o_total_consumption :: real
  o_working_hours_consumption :: real
  o_out_of_hours_consumption :: real
  o_out_of_hours_percentage :: real
  o_data_points_working :: nat
  o_data_points_out_of_hours :: nat
  o_issues_identified :: "issue list"
  o_is_flagged :: bool
  o_threshold_used :: real

text \<open>
  \<^verbatim>\<open>_analyze_device_consumption\<close>: \<open>None\<close> for a day without consumption, for a day that is
  not flagged, and when the computation raises.
\<close>

definition analyze_device_consumption ::
  "ooh_analyzer \<Rightarrow> frame \<Rightarrow> int \<Rightarrow> string \<Rightarrow> string \<Rightarrow> int \<Rightarrow> ooh_result option" where
  "analyze_device_consumption an device_data device_id device_name param_key analysis_date =
     (let consumption_stats = calculate_daily_consumption device_data
      in if cs_total_consumption consumption_stats = 0 then None
         else
           (case identify_consumption_issues (out_of_hours_threshold an) consumption_stats of
              (is_flagged, issues) \<Rightarrow>
                if is_flagged then
                  (case first_client_name device_data of
                     Inl e \<Rightarrow> None
                   | Inr client \<Rightarrow>
                       Some \<lparr>o_client_name = client,
                             o_analysis_date = analysis_date,
                             o_device_id = device_id,
                             o_device_name = device_name,
                             o_param_key = param_key,
                             o_analysis_period_start = analysis_start_date an,
                             o_analysis_period_end = analysis_end_date an,
                             o_total_consumption =
                               py_round2 (cs_total_consumption consumption_stats),
                             o_working_hours_consumption =
                               py_round2 (cs_working_hours_consumption consumption_stats),
                             o_out_of_hours_consumption =
                               py_round2 (cs_out_of_hours_consumption consumption_stats),
                             o_out_of_hours_percentage =
                               py_round2 (cs_out_of_hours_percentage consumption_stats),
                             o_data_points_working = cs_data_points_working consumption_stats,
                             o_data_points_out_of_hours =
                               cs_data_points_out_of_hours consumption_stats,
                             o_issues_identified = issues,
                             o_is_flagged = True,
                             o_threshold_used = out_of_hours_threshold an\<rparr>)
                else None))"

text \<open>
  The loop of \<^verbatim>\<open>analyze_consumption\<close>, with the same state; here the groups are the
  days of the devices.
\<close>

fun consumption_loop ::
  "ooh_analyzer \<Rightarrow> ((int \<times> int \<times> string \<times> string) \<times> row list) list \<Rightarrow>
   ooh_result list \<times> (int \<times> string) list \<Rightarrow> ooh_result list \<times> (int \<times> string) list" where
  "consumption_loop an [] st = st"
| "consumption_loop an (((analysis_date, device_id, device_name, param_key), grp) # groups)
     (analysis_results, warnings) =
     (case device_config (an_config an) (device_id, param_key) of
        None \<Rightarrow> consumption_loop an groups (analysis_results, warnings @ [(device_id, param_key)])
      | Some device_info \<Rightarrow>
          (case analyze_device_consumption an ((an_data an)\<lparr>rows := grp\<rparr>)
                  device_id device_name param_key analysis_date of
             None \<Rightarrow> consumption_loop an groups (analysis_results, warnings)
           | Some result \<Rightarrow> consumption_loop an groups (analysis_results @ [result], warnings)))"

definition analyze_consumption :: "ooh_analyzer \<Rightarrow> ooh_result list" where
  "analyze_consumption an =
     fst (consumption_loop an
       (groupby (\<lambda>r. (date_of r, r_device_id r, r_device_name r, r_param_key r))
          (rows (an_data an)))
       ([], []))"

definition analyze_consumption_warnings :: "ooh_analyzer \<Rightarrow> (int \<times> string) list" where
  "analyze_consumption_warnings an =
     snd (consumption_loop an
       (groupby (\<lambda>r. (date_of r, r_device_id r, r_device_name r, r_param_key r))
          (rows (an_data an)))
       ([], []))"

section \<open>The analyses as the workflow runs them\<close>

text \<open>
  WeeklyCheck.py constructs each analyzer from the configuration and the extracted table
  and calls its analysis method; an exception of the constructor ends that step.
\<close>

definition quality_analysis :: "config \<Rightarrow> frame \<Rightarrow> quality_result list" where
  "quality_analysis cfg csv = analyze_quality (quality_analyzer_init cfg csv)"

definition trend_analysis :: "config \<Rightarrow> frame \<Rightarrow> real \<Rightarrow> py_error + trend_result list" where
  "trend_analysis cfg csv threshold =
     (case trend_analyzer_init cfg csv threshold of
        Inl e \<Rightarrow> Inl e
      | Inr an \<Rightarrow> Inr (analyze_trends an))"

definition out_of_hours_analysis :: "config \<Rightarrow> frame \<Rightarrow> real \<Rightarrow> py_error + ooh_result list" where
  "out_of_hours_analysis cfg csv threshold =
     (case ooh_analyzer_init cfg csv threshold of
        Inl e \<Rightarrow> Inl e
      | Inr an \<Rightarrow> Inr (analyze_consumption an))"

section \<open>Example inputs\<close>

text \<open>
  A configuration with one API key and three devices, one of them on a parameter that the
  configuration does not list; and a server that refuses the first task with 401 and
  answers every other one with two records, the second of which has no value.
\<close>

definition example_config :: config where
  "example_config =
     \<lparr>api_keys = [\<lparr>token = ''secret'', key_client_name = Some ''Kells''\<rparr>],
      params = [''EACTIVE'', ''WATER''],
      request_type = ''hourly'',
      devices = [\<lparr>d_device_id = 1, d_name = ''Meter A'', d_param = ''EACTIVE''\<rparr>,
                 \<lparr>d_device_id = 2, d_name = ''Meter B'', d_param = ''GAS''\<rparr>,
                 \<lparr>d_device_id = 3, d_name = ''Meter C'', d_param = ''WATER''\<rparr>],
      start_date = 0, end_date = 86400\<rparr>"

text \<open>The same file as the extractor holds it, with the two dates as written in it.\<close>

definition example_extractor_config :: extractor_config where
  "example_extractor_config =
     \<lparr>api_keys = [\<lparr>token = ''secret'', key_client_name = Some ''Kells''\<rparr>],
      params = [''EACTIVE'', ''WATER''],
      request_type = ''hourly'',
      devices = [\<lparr>d_device_id = 1, d_name = ''Meter A'', d_param = ''EACTIVE''\<rparr>,
                 \<lparr>d_device_id = 2, d_name = ''Meter B'', d_param = ''GAS''\<rparr>,
                 \<lparr>d_device_id = 3, d_name = ''Meter C'', d_param = ''WATER''\<rparr>],
      x_start_date = Some ''1970-01-01T00:00:00'',
      x_end_date = Some ''1970-01-02T00:00:00''\<rparr>"

text \<open>
  The same configuration without the two dates, which the loader of the extractor accepts;
  and a server that answers every request with a list of records whose only entry is
  \<^verbatim>\<open>null\<close>.
\<close>

definition example_undated_config :: extractor_config where
  "example_undated_config =
     example_extractor_config\<lparr>x_start_date := None, x_end_date := None\<rparr>"

definition example_null_servers :: "nat \<Rightarrow> nat \<Rightarrow> outcome" where
  "example_null_servers i attempt = Response 200 (JObj [(''values'', JArr [JNull])])"

definition example_servers :: "nat \<Rightarrow> nat \<Rightarrow> outcome" where
  "example_servers i attempt =
     (if i = 0 then Response 401 (JStr ''Unauthorized'')
      else Response 200
             (JObj [(''values'',
                     JArr [JObj [(''ts'', JStr ''2024-01-01T00:00:00Z''), (''v'', JNum 5)],
                           JObj [(''ts'', JStr ''2024-01-01T01:00:00Z'')]])]))"

text \<open>
  Tables for the quality analyzer and the window of \<open>example_config\<close>, which is the 24
  hours from instant 0.  The first has 25 hourly readings of Meter A, stamped from one
  hour before the start of the window to one hour before its end.  The second has 25
  hourly readings of Meter A, stamped at every hour of the window, from its start to its
  end.  The third has two readings of Meter C, one reading of a device that is not
  configured, and none of Meter A.
\<close>

definition example_hourly_csv :: frame where
  "example_hourly_csv =
     \<lparr>has_client_name = True,
      rows = map (\<lambda>k. \<lparr>r_client_name = ''Kells'', r_device_id = 1, r_device_name = ''Meter A'',
                        r_param_key = ''EACTIVE'', r_timestamp = 3600 * int k - 3600,
                        r_value = 2\<rparr>) [0..<25]\<rparr>"

definition example_window_hourly_csv :: frame where
  "example_window_hourly_csv =
     \<lparr>has_client_name = True,
      rows = map (\<lambda>k. \<lparr>r_client_name = ''Kells'', r_device_id = 1, r_device_name = ''Meter A'',
                        r_param_key = ''EACTIVE'', r_timestamp = 3600 * int k,
                        r_value = 2\<rparr>) [0..<25]\<rparr>"

definition example_partial_csv :: frame where
  "example_partial_csv =
     \<lparr>has_client_name = True,
      rows = [\<lparr>r_client_name = ''Kells'', r_device_id = 3, r_device_name = ''Meter C'',
               r_param_key = ''WATER'', r_timestamp = 0, r_value = 3 / 2\<rparr>,
              \<lparr>r_client_name = ''Kells'', r_device_id = 3, r_device_name = ''Meter C'',
               r_param_key = ''WATER'', r_timestamp = - 3600, r_value = 0\<rparr>,
              \<lparr>r_client_name = ''Kells'', r_device_id = 7, r_device_name = ''Meter X'',
               r_param_key = ''WATER'', r_timestamp = 7200, r_value = 4\<rparr>]\<rparr>"

text \<open>
  For the trend analyzer: a window of 14 days, and a table with four readings of Meter A
  (two in each half of its span) with the given values, and one reading of a device that
  is not configured.
\<close>

definition example_config_14d :: config where
  "example_config_14d = example_config\<lparr>end_date := 14 * 86400\<rparr>"

definition example_trend_csv :: "real \<Rightarrow> real \<Rightarrow> real \<Rightarrow> real \<Rightarrow> frame" where
  "example_trend_csv v1 v2 v3 v4 =
     \<lparr>has_client_name = True,
      rows = [\<lparr>r_client_name = ''Kells'', r_device_id = 1, r_device_name = ''Meter A'',
               r_param_key = ''EACTIVE'', r_timestamp = 0, r_value = v1\<rparr>,
              \<lparr>r_client_name = ''Kells'', r_device_id = 1, r_device_name = ''Meter A'',
               r_param_key = ''EACTIVE'', r_timestamp = 86400, r_value = v2\<rparr>,
              \<lparr>r_client_name = ''Kells'', r_device_id = 1, r_device_name = ''Meter A'',
               r_param_key = ''EACTIVE'', r_timestamp = 10 * 86400, r_value = v3\<rparr>,
              \<lparr>r_client_name = ''Kells'', r_device_id = 1, r_device_name = ''Meter A'',
               r_param_key = ''EACTIVE'', r_timestamp = 11 * 86400, r_value = v4\<rparr>,
              \<lparr>r_client_name = ''Kells'', r_device_id = 7, r_device_name = ''Meter X'',
               r_param_key = ''WATER'', r_timestamp = 86400, r_value = 9\<rparr>]\<rparr>"

text \<open>
  The group of Meter A in that table as the trend analyzer sees it, after the loader, and
  an analyzer object with the threshold 10.
\<close>

definition example_trend_group :: "real \<Rightarrow> real \<Rightarrow> real \<Rightarrow> real \<Rightarrow> frame" where
  "example_trend_group v1 v2 v3 v4 =
     (load_data (example_trend_csv v1 v2 v3 v4))
       \<lparr>rows := filter (\<lambda>r. r_device_id r = 1) (rows (load_data (example_trend_csv v1 v2 v3 v4)))\<rparr>"

definition example_trend_analyzer :: trend_analyzer where
  "example_trend_analyzer =
     \<lparr>an_config = example_config_14d, an_data = load_data (example_trend_csv 0 0 2 3),
      analysis_start_date = 0, analysis_end_date = 14 * 86400, trend_threshold = 10\<rparr>"

text \<open>
  For the out-of-hours analyzer and the window of \<open>example_config\<close>: one day on which
  Meter A reads \<open>a_working\<close> at 08:00 and \<open>a_out\<close> at 20:00, Meter C reads \<open>c_working\<close> at
  08:00 and \<open>c_out\<close> at 20:00 (times after the loader's shift), and a device that is not
  configured reads 9 at 20:00.
\<close>

definition example_day_csv :: "real \<Rightarrow> real \<Rightarrow> real \<Rightarrow> real \<Rightarrow> frame" where
  "example_day_csv a_working a_out c_working c_out =
     \<lparr>has_client_name = True,
      rows = [\<lparr>r_client_name = ''Kells'', r_device_id = 1, r_device_name = ''Meter A'',
               r_param_key = ''EACTIVE'', r_timestamp = 7 * 3600, r_value = a_working\<rparr>,
              \<lparr>r_client_name = ''Kells'', r_device_id = 1, r_device_name = ''Meter A'',
               r_param_key = ''EACTIVE'', r_timestamp = 19 * 3600, r_value = a_out\<rparr>,
              \<lparr>r_client_name = ''Kells'', r_device_id = 3, r_device_name = ''Meter C'',
               r_param_key = ''WATER'', r_timestamp = 7 * 3600, r_value = c_working\<rparr>,
              \<lparr>r_client_name = ''Kells'', r_device_id = 3, r_device_name = ''Meter C'',
               r_param_key = ''WATER'', r_timestamp = 19 * 3600, r_value = c_out\<rparr>,
              \<lparr>r_client_name = ''Kells'', r_device_id = 7, r_device_name = ''Meter X'',
               r_param_key = ''WATER'', r_timestamp = 19 * 3600, r_value = 9\<rparr>]\<rparr>"

text \<open>
  The group of one device on that day as the out-of-hours analyzer sees it, after the
  loader, and an analyzer object with the threshold 30.
\<close>

definition example_day_group :: "int \<Rightarrow> real \<Rightarrow> real \<Rightarrow> real \<Rightarrow> real \<Rightarrow> frame" where
  "example_day_group dev a_working a_out c_working c_out =
     (load_data (example_day_csv a_working a_out c_working c_out))
       \<lparr>rows := filter (\<lambda>r. r_device_id r = dev)
                  (rows (load_data (example_day_csv a_working a_out c_working c_out)))\<rparr>"

definition example_ooh_analyzer :: ooh_analyzer where
  "example_ooh_analyzer =
     \<lparr>an_config = example_config, an_data = load_data (example_day_csv 80 20 40 60),
      analysis_start_date = 0, analysis_end_date = 86400, out_of_hours_threshold = 30\<rparr>"

section \<open>The retry client: properties\<close>

text \<open>
  C4. When the first response has status 401, the client returns \<^verbatim>\<open>None\<close> (no exception
  reaches the caller) after exactly one request, without sleeping and without a second
  attempt, whatever the server would have answered later.
\<close>

theorem unauthorized_returns_failure_after_one_attempt:
  assumes "server 0 = Response 401 body"
  shows "make_request_with_retry server = (Inr None, \<lparr>sleeps = [], requests = 1\<rparr>)"
  unfolding make_request_with_retry_def
  by (subst attempts_from.simps) (simp add: assms max_retries_def)

theorem unauthorized_returns_failure_after_one_attempt_witness:
  "(\<lambda>n. if n = 0 then Response 401 (JStr ''Unauthorized'')
         else Response 200 (JObj [(''values'', JArr [])])) 0
     = Response 401 (JStr ''Unauthorized'') \<and>
   make_request_with_retry
     (\<lambda>n. if n = 0 then Response 401 (JStr ''Unauthorized'')
           else Response 200 (JObj [(''values'', JArr [])]))
     = (Inr None, \<lparr>sleeps = [], requests = 1\<rparr>)"
  using unauthorized_returns_failure_after_one_attempt
    [of "\<lambda>n. if n = 0 then Response 401 (JStr ''Unauthorized'')
              else Response 200 (JObj [(''values'', JArr [])])" "JStr ''Unauthorized''"]
  by simp

text \<open>
  C3. When the first response has status 429 and the second has status 200 with a payload
  in which \<^verbatim>\<open>'values'\<close> is present, the client sleeps once, for
  \<open>min (base_wait * 3 ^ attempt) max_wait\<close> seconds with \<open>attempt = 0\<close> (that is one second,
  which is \<open>base_wait\<close>), issues the second request and returns the payload of the 200.
\<close>

theorem rate_limited_then_ok_returns_payload:
  assumes "server 0 = Response 429 body"
    and "server 1 = Response 200 payload"
    and "py_in ''values'' payload = Inr True"
  shows "make_request_with_retry server =
           (Inr (Some payload),
            \<lparr>sleeps = [min (base_wait * 3 ^ 0) max_wait], requests = 2\<rparr>) \<and>
         base_wait \<le> min (base_wait * 3 ^ 0) max_wait \<and>
         min (base_wait * 3 ^ 0) max_wait = 1 \<and> base_wait = 1"
proof -
  have first: "attempts_from server 0 \<lparr>sleeps = [], requests = 0\<rparr> =
      attempts_from server 1 \<lparr>sleeps = [min (base_wait * 3 ^ 0) max_wait], requests = 1\<rparr>"
    by (subst attempts_from.simps) (simp add: assms max_retries_def sleep_def)
  have second: "attempts_from server 1 \<lparr>sleeps = [w], requests = 1\<rparr> =
      (Inr (Some payload), \<lparr>sleeps = [w], requests = 2\<rparr>)" for w
    using assms(2,3) by (subst attempts_from.simps) (simp add: max_retries_def)
  show ?thesis
    unfolding make_request_with_retry_def first second
    by (simp add: base_wait_def max_wait_def)
qed

theorem rate_limited_then_ok_returns_payload_witness:
  "make_request_with_retry
     (\<lambda>n. if n = 0 then Response 429 (JStr ''Too Many Requests'')
           else Response 200 (JObj [(''values'', JArr [])]))
     = (Inr (Some (JObj [(''values'', JArr [])])), \<lparr>sleeps = [1], requests = 2\<rparr>)"
  using rate_limited_then_ok_returns_payload
    [of "\<lambda>n. if n = 0 then Response 429 (JStr ''Too Many Requests'')
              else Response 200 (JObj [(''values'', JArr [])])"
        "JStr ''Too Many Requests''" "JObj [(''values'', JArr [])]"]
  by simp

section \<open>The extraction engine: properties\<close>

lemma concat_map_if: "concat (map (\<lambda>d. if P d then [f d] else []) ds) = map f (filter P ds)"
  by (induction ds) simp_all

lemma device_loop_eq:
  "device_loop cfg tok client ds tasks =
     tasks @ map (make_task tok client) (filter (\<lambda>d. d_param d \<in> set (params cfg)) ds)"
  by (induction ds arbitrary: tasks) simp_all

lemma api_key_loop_eq:
  "api_key_loop cfg ks tasks =
     tasks @ concat (map (\<lambda>k. map (make_task (token k) (client_name_of k))
                                (filter (\<lambda>d. d_param d \<in> set (params cfg)) (devices cfg))) ks)"
  by (induction ks arbitrary: tasks) (simp_all add: device_loop_eq)

text \<open>
  C7. The task list holds, in order, one task for every API key and every configured
  device whose parameter is in the list \<open>params\<close> of the configuration, and nothing else:
  their number is the product of the two counts, every task carries a listed parameter,
  and a device on a parameter that is not listed has no task under any key.
\<close>

theorem build_tasks_whitelisted_pairs:
  "build_tasks cfg =
     [make_task (token k) (client_name_of k) d.
        k \<leftarrow> api_keys cfg, d \<leftarrow> devices cfg, d_param d \<in> set (params cfg)] \<and>
   length (build_tasks cfg) =
     length (api_keys cfg) * length (filter (\<lambda>d. d_param d \<in> set (params cfg)) (devices cfg)) \<and>
   (\<forall>t \<in> set (build_tasks cfg). t_param_key t \<in> set (params cfg)) \<and>
   (\<forall>d \<in> set (devices cfg). d_param d \<notin> set (params cfg) \<longrightarrow>
      (\<forall>k \<in> set (api_keys cfg). make_task (token k) (client_name_of k) d \<notin> set (build_tasks cfg)))"
proof -
  have eq: "build_tasks cfg =
     concat (map (\<lambda>k. map (make_task (token k) (client_name_of k))
                                (filter (\<lambda>d. d_param d \<in> set (params cfg)) (devices cfg))) (api_keys cfg))"
    by (simp add: build_tasks_def api_key_loop_eq)
  have 1: "build_tasks cfg =
     [make_task (token k) (client_name_of k) d.
        k \<leftarrow> api_keys cfg, d \<leftarrow> devices cfg, d_param d \<in> set (params cfg)]"
    unfolding eq by (simp add: concat_map_if)
  have 2: "length (build_tasks cfg) =
     length (api_keys cfg) * length (filter (\<lambda>d. d_param d \<in> set (params cfg)) (devices cfg))"
    unfolding eq by (simp add: length_concat comp_def sum_list_triv)
  have 3: "\<forall>t \<in> set (build_tasks cfg). t_param_key t \<in> set (params cfg)"
    unfolding eq by (auto simp: make_task_def)
  have 4: "\<forall>d \<in> set (devices cfg). d_param d \<notin> set (params cfg) \<longrightarrow>
      (\<forall>k \<in> set (api_keys cfg). make_task (token k) (client_name_of k) d \<notin> set (build_tasks cfg))"
    using 3 by (auto simp: make_task_def)
  show ?thesis using 1 2 3 4 by blast
qed

theorem build_tasks_whitelisted_pairs_witness:
  "build_tasks example_config =
     [\<lparr>t_token = ''secret'', t_client_name = ''Kells'', t_device_id = 1,
       t_device_name = ''Meter A'', t_param_key = ''EACTIVE''\<rparr>,
      \<lparr>t_token = ''secret'', t_client_name = ''Kells'', t_device_id = 3,
       t_device_name = ''Meter C'', t_param_key = ''WATER''\<rparr>] \<and>
   length (build_tasks example_config) = 1 * 2 \<and>
   \<lparr>t_token = ''secret'', t_client_name = ''Kells'', t_device_id = 2,
     t_device_name = ''Meter B'', t_param_key = ''GAS''\<rparr> \<notin> set (build_tasks example_config)"
  using build_tasks_whitelisted_pairs[of example_config]
  by (simp add: example_config_def client_name_of_def make_task_def)

lemma sequential_loop_eq:
  "\<forall>(j, t) \<in> set (enumerate i ts). \<exists>rs. worker j t = Inr rs \<Longrightarrow>
   sequential_loop worker i ts (acc, fl) =
     Inr (acc @ concat (map (\<lambda>(j, t). returned (worker j t)) (enumerate i ts)),
          fl @ map snd (filter (\<lambda>(j, t). returned (worker j t) = []) (enumerate i ts)))"
proof (induction ts arbitrary: i acc fl)
  case Nil
  then show ?case by simp
next
  case (Cons t ts)
  from Cons.prems obtain rs where rs: "worker i t = Inr rs" by auto
  from Cons.prems have rest: "\<forall>(j, t) \<in> set (enumerate (Suc i) ts). \<exists>rs. worker j t = Inr rs"
    by simp
  show ?case
    using Cons.IH[OF rest] rs by (simp add: returned_def)
qed

lemma completed_loop_eq:
  "completed_loop worker tasks order (acc, fl) =
     (acc @ concat (map (\<lambda>i. returned (worker i (tasks ! i))) order),
      fl @ map (\<lambda>i. tasks ! i) (filter (\<lambda>i. returned (worker i (tasks ! i)) = []) order))"
  by (induction order arbitrary: acc fl) (auto simp: returned_def split: sum.splits)

lemma enumerate_0_eq: "enumerate 0 ts = map (\<lambda>i. (i, ts ! i)) [0..<length ts]"
  by (rule nth_equalityI) (simp_all add: nth_enumerate_eq)

lemma sequential_loop_all:
  assumes "\<forall>i<length ts. \<exists>rs. worker i (ts ! i) = Inr rs"
  shows "sequential_loop worker 0 ts ([], []) =
     Inr (concat (map (\<lambda>i. returned (worker i (ts ! i))) [0..<length ts]),
          map (\<lambda>i. ts ! i) (filter (\<lambda>i. returned (worker i (ts ! i)) = []) [0..<length ts]))"
proof -
  have "\<forall>(j, t) \<in> set (enumerate 0 ts). \<exists>rs. worker j t = Inr rs"
    using assms by (auto simp: enumerate_0_eq)
  from sequential_loop_eq[OF this, of "[]" "[]"] show ?thesis
    by (simp add: enumerate_0_eq filter_map comp_def)
qed

lemma summarise_facts:
  assumes d: "distinct ord" and s: "set ord = {..<n}"
    and st: "st = (concat (map R ord), map T (filter (\<lambda>i. R i = []) ord))"
  shows "total_tasks (summarise n st) = n"
    and "failed (summarise n st) = card {i. i < n \<and> R i = []}"
    and "successful (summarise n st) = card {i. i < n \<and> R i \<noteq> []}"
    and "failed (summarise n st) = total_tasks (summarise n st) - successful (summarise n st)"
    and "success_rate (summarise n st) =
          (if n = 0 then 0
           else real (successful (summarise n st)) / real (total_tasks (summarise n st)) * 100)"
    and "total_records (summarise n st) = length (all_results (summarise n st))"
    and "all_results (summarise n st) = concat (map R ord)"
    and "length (all_results (summarise n st)) = (\<Sum>i<n. length (R i))"
proof -
  have f: "length (filter (\<lambda>i. R i = []) ord) = card {i. i < n \<and> R i = []}"
    using d s by (simp add: distinct_length_filter Collect_conj_eq Int_commute lessThan_def)
  have split: "card {i. i < n \<and> R i = []} + card {i. i < n \<and> R i \<noteq> []} = n"
  proof -
    have "card ({i. i < n \<and> R i = []} \<union> {i. i < n \<and> R i \<noteq> []}) =
          card {i. i < n \<and> R i = []} + card {i. i < n \<and> R i \<noteq> []}"
      by (rule card_Un_disjoint) auto
    moreover have "{i. i < n \<and> R i = []} \<union> {i. i < n \<and> R i \<noteq> []} = {..<n}" by auto
    ultimately show ?thesis by simp
  qed
  show "total_tasks (summarise n st) = n" by (simp add: summarise_def)
  show fl: "failed (summarise n st) = card {i. i < n \<and> R i = []}"
    by (simp add: summarise_def st f)
  show su: "successful (summarise n st) = card {i. i < n \<and> R i \<noteq> []}"
    using split by (simp add: summarise_def st f)
  show "failed (summarise n st) = total_tasks (summarise n st) - successful (summarise n st)"
    using split by (simp add: summarise_def st f)
  show "success_rate (summarise n st) =
          (if n = 0 then 0
           else real (successful (summarise n st)) / real (total_tasks (summarise n st)) * 100)"
    by (simp add: summarise_def)
  show "total_records (summarise n st) = length (all_results (summarise n st))"
    by (simp add: summarise_def)
  show "all_results (summarise n st) = concat (map R ord)"
    by (simp add: summarise_def st)
  have "length (concat (map R ord)) = sum_list (map (\<lambda>i. length (R i)) ord)"
    by (simp add: length_concat comp_def)
  also have "\<dots> = (\<Sum>i\<in>set ord. length (R i))"
    using d by (simp add: sum_list_distinct_conv_sum_set)
  finally show "length (all_results (summarise n st)) = (\<Sum>i<n. length (R i))"
    by (simp add: summarise_def st s)
qed



lemma run_seq:
  assumes "\<forall>i<length (build_tasks cfg). \<exists>rs. task_result cfg servers i = Inr rs"
  shows "extract_data cfg 1 servers order =
     Inr (summarise (length (build_tasks cfg))
       (concat (map (\<lambda>i. returned (task_result cfg servers i)) [0..<length (build_tasks cfg)]),
        map (\<lambda>i. build_tasks cfg ! i)
          (filter (\<lambda>i. returned (task_result cfg servers i) = []) [0..<length (build_tasks cfg)])))"
proof -
  from assms have "\<forall>i<length (build_tasks cfg).
        \<exists>rs. extract_device_data cfg (servers i) (build_tasks cfg ! i) = Inr rs"
    by (simp add: task_result_def)
  from sequential_loop_all[of "build_tasks cfg" "\<lambda>i t. extract_device_data cfg (servers i) t", OF this]
  show ?thesis
    by (simp add: extract_data_def Let_def task_result_def)
qed


lemma run_conc:
  assumes "0 < max_workers" "max_workers \<noteq> 1"
  shows "extract_data cfg max_workers servers order =
     Inr (summarise (length (build_tasks cfg))
       (concat (map (\<lambda>i. returned (task_result cfg servers i)) order),
        map (\<lambda>i. build_tasks cfg ! i)
          (filter (\<lambda>i. returned (task_result cfg servers i) = []) order)))"
  using assms by (simp add: extract_data_def Let_def completed_loop_eq task_result_def)



text \<open>
  A worker raises only when the configuration lacks a date or the body has another
  shape: with both dates and a conforming server it returns a list of readings.
\<close>

lemma attempts_from_result:
  "fst (attempts_from server attempt lg) = Inr None \<or>
   (\<exists>j<max_retries. \<exists>body. server j = Response 200 body \<and>
      (case py_in ''values'' body of
         Inl e \<Rightarrow> fst (attempts_from server attempt lg) = Inl e
       | Inr has_values \<Rightarrow> has_values \<and> fst (attempts_from server attempt lg) = Inr (Some body)))"
proof (induction server attempt lg rule: attempts_from.induct)
  case (1 server attempt lg)
  show ?case
  proof (cases "attempt < max_retries")
    case False
    then show ?thesis by (subst attempts_from.simps) simp
  next
    case True
    note IH = "1.IH"[OF True refl]
    show ?thesis
    proof (cases "server attempt")
      case (Response status_code body)
      consider "status_code = 200" | "status_code = 401" | "status_code = 429"
        | "status_code \<in> {500, 502, 503, 504}"
        | "status_code \<noteq> 200" "status_code \<noteq> 401" "status_code \<noteq> 429"
          "status_code \<notin> {500, 502, 503, 504}"
        by blast
      then show ?thesis
      proof cases
        case 1
        show ?thesis
        proof (cases "py_in ''values'' body")
          case (Inl e)
          have "fst (attempts_from server attempt lg) = Inl e"
            by (subst attempts_from.simps) (simp add: True Response 1 Inl)
          with True Response 1 Inl show ?thesis by (intro disjI2 exI[of _ attempt]) auto
        next
          case (Inr has_values)
          show ?thesis
          proof (cases has_values)
            case True': True
            have "fst (attempts_from server attempt lg) = Inr (Some body)"
              by (subst attempts_from.simps) (simp add: True Response 1 Inr True')
            with True Response 1 Inr True' show ?thesis by (intro disjI2 exI[of _ attempt]) auto
          next
            case False
            have "fst (attempts_from server attempt lg) = Inr None"
              by (subst attempts_from.simps) (simp add: True Response 1 Inr False)
            then show ?thesis by simp
          qed
        qed
      next
        case 2
        have "fst (attempts_from server attempt lg) = Inr None"
          by (subst attempts_from.simps) (simp add: True Response 2)
        then show ?thesis by simp
      next
        case 3
        have step: "attempts_from server attempt lg =
              attempts_from server (attempt + 1)
                 (sleep (min (base_wait * 3 ^ attempt) max_wait) (lg\<lparr>requests := requests lg + 1\<rparr>))"
          by (subst attempts_from.simps) (simp add: True Response 3 del: attempts_from.simps)
        from 3 have n: "status_code \<noteq> 200" "status_code \<noteq> 401" by auto
        show ?thesis unfolding step by (rule IH(1)[OF Response n 3])
      next
        case 4
        then have n: "status_code \<noteq> 200" "status_code \<noteq> 401" "status_code \<noteq> 429" by auto
        have step: "attempts_from server attempt lg =
              attempts_from server (attempt + 1)
                 (sleep (min (base_wait * 2 ^ attempt) max_wait) (lg\<lparr>requests := requests lg + 1\<rparr>))"
          by (subst attempts_from.simps) (use 4 n in \<open>simp add: True Response del: attempts_from.simps\<close>)
        show ?thesis unfolding step by (rule IH(2)[OF Response n 4])
      next
        case 5
        have "fst (attempts_from server attempt lg) = Inr None"
          by (subst attempts_from.simps) (use 5 in \<open>simp add: True Response\<close>)
        then show ?thesis by simp
      qed
    next
      case Timeout
      have step: "attempts_from server attempt lg =
            attempts_from server (attempt + 1)
              (if attempt < max_retries - 1
               then sleep (base_wait * 2 ^ attempt) (lg\<lparr>requests := requests lg + 1\<rparr>)
               else lg\<lparr>requests := requests lg + 1\<rparr>)"
        by (subst attempts_from.simps) (simp add: True Timeout del: attempts_from.simps)
      show ?thesis unfolding step by (rule IH(3)[OF Timeout])
    next
      case RequestException
      have step: "attempts_from server attempt lg =
            attempts_from server (attempt + 1)
              (if attempt < max_retries - 1
               then sleep (base_wait * 2 ^ attempt) (lg\<lparr>requests := requests lg + 1\<rparr>)
               else lg\<lparr>requests := requests lg + 1\<rparr>)"
        by (subst attempts_from.simps) (simp add: True RequestException del: attempts_from.simps)
      show ?thesis unfolding step by (rule IH(4)[OF RequestException])
    qed
  qed
qed


lemma getitem_present:
  "k \<in> set (map fst kvs) \<Longrightarrow> \<exists>v. py_getitem (JObj kvs) k = Inr v"
proof -
  assume "k \<in> set (map fst kvs)"
  then have "map_of (rev kvs) k \<noteq> None"
    by (simp add: map_of_eq_None_iff)
  then show ?thesis by auto
qed

lemma process_items_objects:
  "list_all is_object items \<Longrightarrow> \<exists>rs. process_items t items acc = Inr rs"
proof (induction items arbitrary: acc)
  case Nil
  show ?case by simp
next
  case (Cons item items)
  from Cons.prems obtain kvs where item: "item = JObj kvs" by (cases item) auto
  from Cons.prems have rest: "list_all is_object items" by simp
  show ?case
  proof (cases "''ts'' \<in> set (map fst kvs) \<and> ''v'' \<in> set (map fst kvs)")
    case False
    then show ?thesis using Cons.IH[OF rest] by (auto simp: item)
  next
    case True
    from True getitem_present[of "''ts''" kvs] obtain ts where ts: "py_getitem (JObj kvs) ''ts'' = Inr ts"
      by blast
    from True getitem_present[of "''v''" kvs] obtain v where v: "py_getitem (JObj kvs) ''v'' = Inr v"
      by blast
    show ?thesis
      using True ts v Cons.IH[OF rest] by (simp add: item del: py_getitem.simps)
  qed
qed

lemma conforming_body_values:
  assumes "conforming_body body"
  shows "\<exists>has_values. py_in ''values'' body = Inr has_values"
    and "py_in ''values'' body = Inr True \<Longrightarrow>
         py_truthy body \<and>
         (\<exists>items. py_getitem body ''values'' = Inr (JArr items) \<and> list_all is_object items)"
proof -
  from assms obtain kvs where body: "body = JObj kvs" by (cases body) auto
  show "\<exists>has_values. py_in ''values'' body = Inr has_values" by (simp add: body)
  assume "py_in ''values'' body = Inr True"
  then have mem: "''values'' \<in> set (map fst kvs)" by (simp add: body)
  then have ne: "kvs \<noteq> []" by auto
  from mem have "map_of (rev kvs) ''values'' \<noteq> None" by (simp add: map_of_eq_None_iff)
  then obtain v where v: "map_of (rev kvs) ''values'' = Some v" by auto
  with assms obtain items where "v = JArr items" "list_all is_object items"
    by (cases v) (auto simp: body)
  with v ne show "py_truthy body \<and>
         (\<exists>items. py_getitem body ''values'' = Inr (JArr items) \<and> list_all is_object items)"
    by (simp add: body)
qed

lemma conforming_server_never_raises:
  assumes "conforming_server server"
    and dates: "x_start_date cfg \<noteq> None" "x_end_date cfg \<noteq> None"
  shows "\<exists>rs. extract_device_data cfg server t = Inr rs"
proof -
  from dates obtain query where q: "request_params cfg t = Inr query"
    by (auto simp: request_params_def Let_def)
  from attempts_from_result[of server 0 "\<lparr>sleeps = [], requests = 0\<rparr>"]
  consider "fst (make_request_with_retry server) = Inr None"
    | j body where "j < max_retries" "server j = Response 200 body"
        "case py_in ''values'' body of
           Inl e \<Rightarrow> fst (make_request_with_retry server) = Inl e
         | Inr has_values \<Rightarrow> has_values \<and> fst (make_request_with_retry server) = Inr (Some body)"
    unfolding make_request_with_retry_def by blast
  then show ?thesis
  proof cases
    case 1
    then show ?thesis by (simp add: extract_device_data_def q)
  next
    case 2
    from assms have "\<forall>attempt \<in> {0..<max_retries}.
        case server attempt of
          Response status_code body \<Rightarrow> status_code = 200 \<longrightarrow> conforming_body body
        | _ \<Rightarrow> True"
      by (simp add: conforming_server_def list_all_iff)
    with 2(1) have "case server j of
          Response status_code body \<Rightarrow> status_code = 200 \<longrightarrow> conforming_body body
        | _ \<Rightarrow> True"
      by auto
    with 2(2) have c: "conforming_body body" by simp
    from conforming_body_values(1)[OF c] 2(3)
    have t: "py_in ''values'' body = Inr True"
      and r: "fst (make_request_with_retry server) = Inr (Some body)"
      by auto
    from conforming_body_values(2)[OF c t] obtain items where
      i: "py_truthy body" "py_getitem body ''values'' = Inr (JArr items)" "list_all is_object items"
      by blast
    from process_items_objects[OF i(3), of t "[]"] show ?thesis
      by (simp add: extract_device_data_def q r t i(1,2) del: py_getitem.simps)
  qed
qed

text \<open>
  The runs that report a summary: with a pool of at least one worker, the sequential run
  whenever no worker raises, and the concurrent run for every completion order.  A worker
  that hands back no reading does not stop such a run.  The summary has: the total number
  of tasks; as successful the number of tasks whose worker handed back at least one
  reading; as failed the total minus the successful; as success rate
  successful / total * 100, and 0 without tasks; as total records the length of the result
  collection, which is the readings of all tasks, concatenated in the order of processing.
\<close>

lemma extract_data_summary:
  assumes pool: "0 < max_workers"
    and seq: "max_workers = 1 \<longrightarrow>
                (\<forall>i<length (build_tasks cfg). \<exists>rs. task_result cfg servers i = Inr rs)"
    and conc: "max_workers \<noteq> 1 \<longrightarrow>
                 distinct order \<and> set order = {..<length (build_tasks cfg)}"
  shows "\<exists>ex. extract_data cfg max_workers servers order = Inr ex \<and>
           total_tasks ex = length (build_tasks cfg) \<and>
           successful ex =
             card {i. i < length (build_tasks cfg) \<and> returned (task_result cfg servers i) \<noteq> []} \<and>
           failed ex = total_tasks ex - successful ex \<and>
           success_rate ex =
             (if length (build_tasks cfg) = 0 then 0
              else real (successful ex) / real (total_tasks ex) * 100) \<and>
           total_records ex = length (all_results ex) \<and>
           all_results ex =
             concat (map (\<lambda>i. returned (task_result cfg servers i))
                       (if max_workers = 1 then [0..<length (build_tasks cfg)] else order)) \<and>
           length (all_results ex) =
             (\<Sum>i<length (build_tasks cfg). length (returned (task_result cfg servers i)))"
proof -
  define n where "n = length (build_tasks cfg)"
  define R where "R = (\<lambda>i. returned (task_result cfg servers i))"
  define ord where "ord = (if max_workers = 1 then [0..<n] else order)"
  define st where
    "st = (concat (map R ord), map (\<lambda>i. build_tasks cfg ! i) (filter (\<lambda>i. R i = []) ord))"
  have ds: "distinct ord \<and> set ord = {..<n}"
  proof (cases "max_workers = 1")
    case True
    then have "ord = [0..<n]" by (simp add: ord_def)
    then show ?thesis by (simp add: atLeast0LessThan)
  next
    case False
    then have "ord = order" by (simp add: ord_def)
    with False conc show ?thesis by (simp add: n_def)
  qed
  then have d: "distinct ord" and s: "set ord = {..<n}" by blast+
  have run: "extract_data cfg max_workers servers order = Inr (summarise n st)"
  proof (cases "max_workers = 1")
    case True
    then have o: "ord = [0..<n]" by (simp add: ord_def)
    from True seq have "\<forall>i<length (build_tasks cfg). \<exists>rs. task_result cfg servers i = Inr rs"
      by blast
    from run_seq[OF this, of order] show ?thesis
      unfolding st_def o R_def n_def True .
  next
    case False
    then have o: "ord = order" by (simp add: ord_def)
    from run_conc[OF pool False, of cfg servers order] show ?thesis
      unfolding st_def o R_def n_def .
  qed
  note facts = summarise_facts[OF d s st_def]
  have "total_tasks (summarise n st) = n \<and>
        successful (summarise n st) = card {i. i < n \<and> R i \<noteq> []} \<and>
        failed (summarise n st) = total_tasks (summarise n st) - successful (summarise n st) \<and>
        success_rate (summarise n st) =
          (if n = 0 then 0
           else real (successful (summarise n st)) / real (total_tasks (summarise n st)) * 100) \<and>
        total_records (summarise n st) = length (all_results (summarise n st)) \<and>
        all_results (summarise n st) = concat (map R ord) \<and>
        length (all_results (summarise n st)) = (\<Sum>i<n. length (R i))"
    using facts by blast
  then show ?thesis
    unfolding run n_def R_def ord_def n_def by blast
qed


lemma example_tasks: "build_tasks example_extractor_config = [make_task ''secret'' ''Kells'' \<lparr>d_device_id = 1, d_name = ''Meter A'', d_param = ''EACTIVE''\<rparr>,
  make_task ''secret'' ''Kells'' \<lparr>d_device_id = 3, d_name = ''Meter C'', d_param = ''WATER''\<rparr>]"
  by (simp add: build_tasks_def example_extractor_config_def client_name_of_def)

lemma example_request:
  "request_params example_extractor_config t =
     Inr \<lparr>rq_device_id = t_device_id t, rq_operation = ''DELTA'',
          rq_parameter_key = t_param_key t, rq_resolution = ''H'',
          rq_from = ''1970-01-01T00:00:00'', rq_to = ''1970-01-02T00:00:00''\<rparr>"
  by (simp add: request_params_def example_extractor_config_def)

lemma example_result_0: "task_result example_extractor_config example_servers 0 = Inr []"
  by (simp add: task_result_def example_tasks extract_device_data_def example_request make_request_with_retry_def example_servers_def max_retries_def)

lemma example_result_1: "task_result example_extractor_config example_servers (Suc 0) = Inr [\<lparr>x_client_name = ''Kells'', x_device_id = 3, x_device_name = ''Meter C'',
    x_param_key = ''WATER'', x_timestamp = JStr ''2024-01-01T00:00:00Z'', x_value = JNum 5\<rparr>]"
  by (simp add: task_result_def example_tasks extract_device_data_def example_request make_request_with_retry_def example_servers_def max_retries_def make_task_def)


lemma example_tasks_length: "length (build_tasks example_extractor_config) = 2"
  by (simp add: example_tasks)

lemma example_succeeded: "{i. i < 2 \<and> returned (task_result example_extractor_config example_servers i) \<noteq> []} = {Suc 0}"
proof (rule set_eqI)
  fix i :: nat
  have "i < 2 \<longleftrightarrow> i = 0 \<or> i = Suc 0" by arith
  then show "i \<in> {i. i < 2 \<and> returned (task_result example_extractor_config example_servers i) \<noteq> []} \<longleftrightarrow> i \<in> {Suc 0}"
    by (auto simp: example_result_0 example_result_1 returned_def)
qed

lemma extract_data_summary_example:
  "(\<exists>ex. extract_data example_extractor_config 1 example_servers [] = Inr ex \<and>
         total_tasks ex = 2 \<and> successful ex = 1 \<and> failed ex = 1 \<and>
         success_rate ex = 50 \<and> total_records ex = 1) \<and>
   (\<exists>ex. extract_data example_extractor_config 5 example_servers [1, 0] = Inr ex \<and>
         total_tasks ex = 2 \<and> successful ex = 1 \<and> failed ex = 1 \<and>
         success_rate ex = 50 \<and> total_records ex = 1)"
proof -
  have all_return: "\<forall>i<length (build_tasks example_extractor_config). \<exists>rs. task_result example_extractor_config example_servers i = Inr rs"
  proof (intro allI impI)
    fix i assume "i < length (build_tasks example_extractor_config)"
    then have "i = 0 \<or> i = Suc 0" by (simp add: example_tasks_length) arith
    then show "\<exists>rs. task_result example_extractor_config example_servers i = Inr rs" using example_result_0 example_result_1 by auto
  qed
  have total: "(\<Sum>i<2. length (returned (task_result example_extractor_config example_servers i))) = 1"
    by (simp add: numeral_2_eq_2 example_result_0 example_result_1 returned_def)
  have perm: "distinct [1, 0::nat] \<and> set [1, 0::nat] = {..<length (build_tasks example_extractor_config)}"
    by (auto simp: example_tasks_length)
  from extract_data_summary[of 1 example_extractor_config example_servers "[]"] all_return
  obtain ex where ex: "extract_data example_extractor_config 1 example_servers [] = Inr ex"
      "total_tasks ex = length (build_tasks example_extractor_config)"
      "successful ex =
         card {i. i < length (build_tasks example_extractor_config) \<and> returned (task_result example_extractor_config example_servers i) \<noteq> []}"
      "failed ex = total_tasks ex - successful ex"
      "success_rate ex =
         (if length (build_tasks example_extractor_config) = 0 then 0
          else real (successful ex) / real (total_tasks ex) * 100)"
      "total_records ex = length (all_results ex)"
      "length (all_results ex) =
         (\<Sum>i<length (build_tasks example_extractor_config). length (returned (task_result example_extractor_config example_servers i)))"
    by auto
  from extract_data_summary[of 5 example_extractor_config example_servers "[1, 0]"] perm
  obtain ex' where ex': "extract_data example_extractor_config 5 example_servers [1, 0] = Inr ex'"
      "total_tasks ex' = length (build_tasks example_extractor_config)"
      "successful ex' =
         card {i. i < length (build_tasks example_extractor_config) \<and> returned (task_result example_extractor_config example_servers i) \<noteq> []}"
      "failed ex' = total_tasks ex' - successful ex'"
      "success_rate ex' =
         (if length (build_tasks example_extractor_config) = 0 then 0
          else real (successful ex') / real (total_tasks ex') * 100)"
      "total_records ex' = length (all_results ex')"
      "length (all_results ex') =
         (\<Sum>i<length (build_tasks example_extractor_config). length (returned (task_result example_extractor_config example_servers i)))"
    by auto
  have "total_tasks ex = 2 \<and> successful ex = 1 \<and> failed ex = 1 \<and>
         success_rate ex = 50 \<and> total_records ex = 1"
    using ex(2-) by (simp add: example_succeeded example_tasks_length total)
  moreover have "total_tasks ex' = 2 \<and> successful ex' = 1 \<and> failed ex' = 1 \<and>
         success_rate ex' = 50 \<and> total_records ex' = 1"
    using ex'(2-) by (simp add: example_succeeded example_tasks_length total)
  ultimately show ?thesis using ex(1) ex'(1) by blast
qed


text \<open>
  A worker that raises ends the sequential run: the run hands on the exception of the first
  task whose worker raises, and processes no later task.
\<close>

lemma sequential_loop_raises:
  assumes "k < length ts" "worker (i + k) (ts ! k) = Inl e"
    and "\<forall>j<k. \<exists>rs. worker (i + j) (ts ! j) = Inr rs"
  shows "sequential_loop worker i ts (acc, fl) = Inl e"
  using assms
proof (induction ts arbitrary: i k acc fl)
  case Nil
  then show ?case by simp
next
  case (Cons t ts)
  show ?case
  proof (cases k)
    case 0
    with Cons.prems(2) show ?thesis by simp
  next
    case (Suc k')
    from Cons.prems(3) Suc obtain rs where rs: "worker i t = Inr rs" by fastforce
    have 1: "k' < length ts" using Cons.prems(1) Suc by simp
    have 2: "worker (Suc i + k') (ts ! k') = Inl e" using Cons.prems(2) Suc by simp
    have 3: "\<forall>j<k'. \<exists>rs. worker (Suc i + j) (ts ! j) = Inr rs"
    proof (intro allI impI)
      fix j assume "j < k'"
      then have "Suc j < k" using Suc by simp
      with Cons.prems(3) have "\<exists>rs. worker (i + Suc j) ((t # ts) ! Suc j) = Inr rs" by blast
      then show "\<exists>rs. worker (Suc i + j) (ts ! j) = Inr rs" by simp
    qed
    show ?thesis
      using Cons.IH[OF 1 2 3] rs by simp
  qed
qed

lemma sequential_run_raises:
  assumes "k < length (build_tasks cfg)" "task_result cfg servers k = Inl e"
    and "\<forall>j<k. \<exists>rs. task_result cfg servers j = Inr rs"
  shows "extract_data cfg 1 servers order = Inl e"
proof -
  have "sequential_loop (\<lambda>i t. extract_device_data cfg (servers i) t) 0 (build_tasks cfg) ([], [])
        = Inl e"
    using assms by (intro sequential_loop_raises[where k = k]) (simp_all add: task_result_def)
  then show ?thesis by (simp add: extract_data_def Let_def)
qed

text \<open>
  A configuration without the dates makes every worker raise KeyError before it sends a
  request: the sequential run ends with that exception, the concurrent run records every
  task as failed.
\<close>

lemma missing_dates_sequential_and_concurrent:
  "extract_data example_undated_config 1 example_servers [] = Inl KeyError"
  "extract_data example_undated_config 5 example_servers [1, 0] =
   Inr \<lparr>all_results = [],
        failed_tasks = [build_tasks example_undated_config ! 1,
                        build_tasks example_undated_config ! 0],
        total_tasks = 2, successful = 0, failed = 2, success_rate = 0, total_records = 0\<rparr>"
  by code_simp+

text \<open>
  C8 (the behaviour of the code when a worker raises).  The configuration has two tasks,
  and the server answers every request with status 200 and the body
  \<^verbatim>\<open>{"values": [null]}\<close>, on which the worker raises TypeError.  With one worker the run
  ends with that exception at the first task: the second task is not processed and no
  summary is reported.  With five workers the same exception is caught for each task: both
  tasks are processed and recorded as failed, and the summary is reported.
\<close>

theorem sequential_run_ends_when_a_worker_raises:
  "length (build_tasks example_extractor_config) = 2 \<and>
   task_result example_extractor_config example_null_servers 0 = Inl TypeError \<and>
   task_result example_extractor_config example_null_servers 1 = Inl TypeError \<and>
   extract_data example_extractor_config 1 example_null_servers [] = Inl TypeError \<and>
   extract_data example_extractor_config 5 example_null_servers [1, 0] =
     Inr \<lparr>all_results = [],
          failed_tasks = [build_tasks example_extractor_config ! 1,
                          build_tasks example_extractor_config ! 0],
          total_tasks = 2, successful = 0, failed = 2, success_rate = 0, total_records = 0\<rparr>"
  by code_simp


section \<open>The analyzers: shared facts\<close>

lemma device_config_configured:
  "device_config cfg pair \<noteq> None \<longleftrightarrow> configured cfg pair"
  by (simp add: device_config_def configured_def map_of_eq_None_iff image_image comp_def)

lemma groupby_filter:
  "groupby key (filter (\<lambda>r. Q (key r)) rs) = filter (\<lambda>(k, g). Q k) (groupby key rs)"
proof -
  have keys: "sort (remdups (map key (filter (\<lambda>r. Q (key r)) rs))) =
              filter Q (sort (remdups (map key rs)))"
  proof -
    have "map key (filter (\<lambda>r. Q (key r)) rs) = filter Q (map key rs)"
      by (induction rs) auto
    then show ?thesis
      by (simp add: remdups_filter filter_sort)
  qed
  have grp: "Q k \<Longrightarrow> filter (\<lambda>r. Q (key r) \<and> key r = k) rs = filter (\<lambda>r. key r = k) rs" for k
    by (induction rs) auto
  show ?thesis
    unfolding groupby_def keys
    by (simp add: filter_map comp_def grp)
qed

lemma groupby_nonempty: "(k, g) \<in> set (groupby key rs) \<Longrightarrow> g \<noteq> [] \<and> (\<forall>r \<in> set g. key r = k \<and> r \<in> set rs)"
  by (auto simp: groupby_def filter_empty_conv)

lemma groupby_group: "(k, g) \<in> set (groupby key rs) \<Longrightarrow> g = filter (\<lambda>r. key r = k) rs"
  by (auto simp: groupby_def)

lemma groupby_keys: "map fst (groupby key rs) = sort (remdups (map key rs))"
  by (simp add: groupby_def comp_def)


section \<open>The quality analyzer: properties\<close>

lemma py_int_nonneg: "0 \<le> x \<Longrightarrow> py_int x = \<lfloor>x\<rfloor>"
  by (simp add: py_int_def)

lemma expected_points_floor:
  "analysis_start_date an \<le> analysis_end_date an \<Longrightarrow>
   calculate_expected_points an =
     \<lfloor>real_of_int (analysis_end_date an - analysis_start_date an) / 3600\<rfloor> + 1"
  by (simp add: calculate_expected_points_def py_int_def)

lemma expected_points_pos:
  "analysis_start_date an \<le> analysis_end_date an \<Longrightarrow> 0 < calculate_expected_points an"
  by (simp add: expected_points_floor)

lemma quality_loop_eq:
  "fst (quality_loop an groups (acc, ws)) =
     acc @ concat (map (\<lambda>((device_id, device_name, param_key), grp).
       case device_config (an_config an) (device_id, param_key) of
         None \<Rightarrow> []
       | Some device_info \<Rightarrow>
           (case analyze_device_quality an ((an_data an)\<lparr>rows := grp\<rparr>)
                   device_id device_name param_key of
              Inl e \<Rightarrow> [] | Inr result \<Rightarrow> [result])) groups)"
proof (induction groups arbitrary: acc ws)
  case Nil
  show ?case by simp
next
  case (Cons g groups)
  obtain device_id device_name param_key grp where g: "g = ((device_id, device_name, param_key), grp)"
    by (metis prod.exhaust)
  show ?case
    unfolding g by (simp add: Cons.IH split: option.splits sum.splits)
qed

lemma py_round2_100: "py_round2 100 = 100"
  by (simp add: py_round2_def Let_def)

lemma py_round2_sentinel: "py_round2 999.99 = 999.99"
  by (simp add: py_round2_def Let_def)
lemma py_round2_0: "py_round2 0 = 0"
  by (simp add: py_round2_def Let_def)


lemma analyze_quality_mem:
  assumes "r \<in> set (analyze_quality an)"
  shows "\<exists>device_id device_name param_key grp.
    ((device_id, device_name, param_key), grp) \<in>
       set (groupby (\<lambda>r. (r_device_id r, r_device_name r, r_param_key r)) (rows (an_data an))) \<and>
    device_config (an_config an) (device_id, param_key) \<noteq> None \<and>
    analyze_device_quality an ((an_data an)\<lparr>rows := grp\<rparr>) device_id device_name param_key = Inr r"
proof -
  define step where "step = (\<lambda>((device_id, device_name, param_key), grp).
       case device_config (an_config an) (device_id, param_key) of
         None \<Rightarrow> []
       | Some device_info \<Rightarrow>
           (case analyze_device_quality an ((an_data an)\<lparr>rows := grp\<rparr>)
                   device_id device_name param_key of
              Inl e \<Rightarrow> [] | Inr result \<Rightarrow> [result]))"
  from assms have "r \<in> set (concat (map step
      (groupby (\<lambda>r. (r_device_id r, r_device_name r, r_param_key r)) (rows (an_data an)))))"
    unfolding analyze_quality_def quality_loop_eq step_def by simp
  then obtain g where
    g: "g \<in> set (groupby (\<lambda>r. (r_device_id r, r_device_name r, r_param_key r)) (rows (an_data an)))"
    and r: "r \<in> set (step g)"
    by auto
  obtain device_id device_name param_key grp where gg: "g = ((device_id, device_name, param_key), grp)"
    by (metis prod.exhaust)
  from r have "device_config (an_config an) (device_id, param_key) \<noteq> None \<and>
    analyze_device_quality an ((an_data an)\<lparr>rows := grp\<rparr>) device_id device_name param_key = Inr r"
    unfolding gg step_def
    by (cases "device_config (an_config an) (device_id, param_key)";
        cases "analyze_device_quality an ((an_data an)\<lparr>rows := grp\<rparr>) device_id device_name param_key";
        simp)
  with g show ?thesis unfolding gg by blast
qed

lemma analyze_device_quality_Inr:
  assumes "analyze_device_quality an device_data device_id device_name param_key = Inr r"
  shows "q_device_id r = device_id" "q_device_name r = device_name" "q_param_key r = param_key"
    "q_expected_points r = calculate_expected_points an"
    "q_actual_points r = length (rows device_data)"
    "q_completeness_percentage r =
       py_round2 (if 0 < calculate_expected_points an
                  then real (length (rows device_data)) / real_of_int (calculate_expected_points an) * 100
                  else 0)"
  using assms
  by (auto simp: analyze_device_quality_def Let_def split: sum.splits)

lemma prepared_rows_in_period:
  "r \<in> set (rows (an_data (filter_and_sort an))) \<Longrightarrow> in_period an r"
  by (simp add: filter_and_sort_def)

lemma filter_and_sort_dates:
  "analysis_start_date (filter_and_sort an) = analysis_start_date an"
  "analysis_end_date (filter_and_sort an) = analysis_end_date an"
  "an_config (filter_and_sort an) = an_config an"
  by (simp_all add: filter_and_sort_def)


lemma first_client_name_nonempty:
  "rows device_data \<noteq> [] \<Longrightarrow> \<exists>client. first_client_name device_data = Inr client"
  by (cases "rows device_data") (simp_all add: first_client_name_def)

lemma py_round2_96: "py_round2 96 = 96"
  by (simp add: py_round2_def Let_def)

lemma prepared_count:
  "length (filter (\<lambda>x. (r_device_id x, r_device_name x, r_param_key x) = k)
             (rows (an_data (quality_analyzer_init cfg csv)))) =
   length (filter (\<lambda>x. (r_device_id x, r_device_name x, r_param_key x) = k \<and>
                        start_date cfg \<le> r_timestamp x + 3600 \<and>
                        r_timestamp x + 3600 \<le> end_date cfg) (rows csv))"
proof -
  have "length (filter (\<lambda>x. (r_device_id x, r_device_name x, r_param_key x) = k)
          (filter (\<lambda>r. start_date cfg \<le> r_timestamp r \<and> r_timestamp r \<le> end_date cfg)
             (map (\<lambda>r. r\<lparr>r_timestamp := r_timestamp r + 3600\<rparr>) rs))) =
        length (filter (\<lambda>x. (r_device_id x, r_device_name x, r_param_key x) = k \<and>
                        start_date cfg \<le> r_timestamp x + 3600 \<and>
                        r_timestamp x + 3600 \<le> end_date cfg) rs)" for rs
    by (induction rs) auto
  then show ?thesis
    by (simp add: quality_analyzer_init_def filter_and_sort_def load_data_def filter_sort
        in_period_def)
qed

lemma analyze_quality_memI:
  assumes g: "((device_id, device_name, param_key), grp) \<in>
       set (groupby (\<lambda>r. (r_device_id r, r_device_name r, r_param_key r)) (rows (an_data an)))"
    and c: "device_config (an_config an) (device_id, param_key) \<noteq> None"
    and a: "analyze_device_quality an ((an_data an)\<lparr>rows := grp\<rparr>) device_id device_name param_key = Inr r"
  shows "r \<in> set (analyze_quality an)"
proof -
  define step where "step = (\<lambda>((device_id, device_name, param_key), grp).
       case device_config (an_config an) (device_id, param_key) of
         None \<Rightarrow> []
       | Some device_info \<Rightarrow>
           (case analyze_device_quality an ((an_data an)\<lparr>rows := grp\<rparr>)
                   device_id device_name param_key of
              Inl e \<Rightarrow> [] | Inr result \<Rightarrow> [result]))"
  from c a have "r \<in> set (step ((device_id, device_name, param_key), grp))"
    unfolding step_def by (cases "device_config (an_config an) (device_id, param_key)") simp_all
  with g have "r \<in> set (concat (map step
      (groupby (\<lambda>r. (r_device_id r, r_device_name r, r_param_key r)) (rows (an_data an)))))"
    by auto
  then show ?thesis
    unfolding analyze_quality_def quality_loop_eq step_def by simp
qed

lemma groupby_memI:
  "filter (\<lambda>r. key r = k) rs \<noteq> [] \<Longrightarrow> (k, filter (\<lambda>r. key r = k) rs) \<in> set (groupby key rs)"
  by (auto simp: groupby_def filter_empty_conv)

lemma hourly_count:
  assumes d: "distinct (map r_timestamp g)"
    and s: "set (map r_timestamp g) = set (map (\<lambda>k. t0 + 3600 * int k) [0..<25])"
  shows "length (filter (\<lambda>x. P (r_timestamp x)) g) = card {k. k < 25 \<and> P (t0 + 3600 * int k)}"
proof -
  have "length (filter (\<lambda>x. P (r_timestamp x)) g) = length (filter P (map r_timestamp g))"
    by (simp add: filter_map comp_def)
  also have "\<dots> = card ({t. P t} \<inter> set (map r_timestamp g))"
    by (rule distinct_length_filter[OF d])
  also have "{t. P t} \<inter> set (map r_timestamp g) =
             (\<lambda>k. t0 + 3600 * int k) ` {k. k < 25 \<and> P (t0 + 3600 * int k)}"
    unfolding s by auto
  also have "card \<dots> = card {k. k < 25 \<and> P (t0 + 3600 * int k)}"
    by (rule card_image) (simp add: inj_on_def)
  finally show ?thesis .
qed


lemma quality_record_exists:
  assumes conf: "configured cfg (device_id, param_key)"
    and w: "end_date cfg = start_date cfg + 24 * 3600"
    and n: "length (filter (\<lambda>x. (r_device_id x, r_device_name x, r_param_key x) =
                                (device_id, device_name, param_key) \<and>
                              start_date cfg \<le> r_timestamp x + 3600 \<and>
                              r_timestamp x + 3600 \<le> end_date cfg) (rows csv)) = n"
    and pos: "0 < n"
  shows "\<exists>r \<in> set (quality_analysis cfg csv).
           q_device_id r = device_id \<and> q_device_name r = device_name \<and>
           q_param_key r = param_key \<and> q_expected_points r = 25 \<and> q_actual_points r = n \<and>
           q_completeness_percentage r = py_round2 (real n / 25 * 100) \<and>
           (''Poor Completeness'' \<in> set (q_quality_flags r) \<longleftrightarrow> real n / 25 * 100 < 90)"
proof -
  define an where "an = quality_analyzer_init cfg csv"
  define grp where "grp = filter (\<lambda>x. (r_device_id x, r_device_name x, r_param_key x) =
                                (device_id, device_name, param_key)) (rows (an_data an))"
  have l: "length grp = n"
    unfolding grp_def an_def prepared_count n ..
  with pos have ne: "grp \<noteq> []" by auto
  have cfg: "an_config an = cfg" "analysis_start_date an = start_date cfg"
      "analysis_end_date an = end_date cfg"
    by (simp_all add: an_def quality_analyzer_init_def filter_and_sort_dates)
  have e: "calculate_expected_points an = 25"
    by (simp add: calculate_expected_points_def py_int_def cfg w)
  have g: "((device_id, device_name, param_key), grp) \<in>
       set (groupby (\<lambda>r. (r_device_id r, r_device_name r, r_param_key r)) (rows (an_data an)))"
    using ne unfolding grp_def by (rule groupby_memI)
  have c: "device_config (an_config an) (device_id, param_key) \<noteq> None"
    using conf by (simp only: cfg device_config_configured)
  have "rows ((an_data an)\<lparr>rows := grp\<rparr>) \<noteq> []" using ne by simp
  from first_client_name_nonempty[OF this]
  obtain client where cl: "first_client_name ((an_data an)\<lparr>rows := grp\<rparr>) = Inr client" by blast
  obtain r where a: "analyze_device_quality an ((an_data an)\<lparr>rows := grp\<rparr>)
                       device_id device_name param_key = Inr r"
    by (simp add: analyze_device_quality_def Let_def cl)
  note f = analyze_device_quality_Inr[OF a]
  have flag: "''Poor Completeness'' \<in> set (q_quality_flags r) \<longleftrightarrow> real n / 25 * 100 < 90"
    using a by (auto simp: analyze_device_quality_def Let_def cl e l)
  have "r \<in> set (quality_analysis cfg csv)"
    unfolding quality_analysis_def an_def[symmetric] by (rule analyze_quality_memI[OF g c a])
  moreover have "q_device_id r = device_id \<and> q_device_name r = device_name \<and>
           q_param_key r = param_key \<and> q_expected_points r = 25 \<and> q_actual_points r = n \<and>
           q_completeness_percentage r = py_round2 (real n / 25 * 100)"
    using f by (simp add: e l)
  ultimately show ?thesis using flag by blast
qed

lemma shifted_hourly_count:
  assumes d: "distinct (map r_timestamp g)"
    and s: "set (map r_timestamp g) = set (map (\<lambda>k. a + 3600 * int k - 3600) [0..<25])"
  shows "length (filter (\<lambda>x. a \<le> r_timestamp x + 3600 \<and> r_timestamp x + 3600 \<le> a + 24 * 3600) g) = 25"
proof -
  have "(\<lambda>k. a + 3600 * int k - 3600) = (\<lambda>k. (a - 3600) + 3600 * int k)"
    by (rule ext) simp
  with s have s': "set (map r_timestamp g) = set (map (\<lambda>k. (a - 3600) + 3600 * int k) [0..<25])"
    by simp
  have "{k. k < 25 \<and> a \<le> ((a - 3600) + 3600 * int k) + 3600 \<and>
            ((a - 3600) + 3600 * int k) + 3600 \<le> a + 24 * 3600} = {..<25::nat}"
    by auto
  then show ?thesis
    using hourly_count[OF d s', of "\<lambda>t. a \<le> t + 3600 \<and> t + 3600 \<le> a + 24 * 3600"] by simp
qed

lemma window_hourly_count:
  assumes d: "distinct (map r_timestamp g)"
    and s: "set (map r_timestamp g) = set (map (\<lambda>k. a + 3600 * int k) [0..<25])"
  shows "length (filter (\<lambda>x. a \<le> r_timestamp x + 3600 \<and> r_timestamp x + 3600 \<le> a + 24 * 3600) g) = 24"
proof -
  have "{k. k < 25 \<and> a \<le> (a + 3600 * int k) + 3600 \<and>
            (a + 3600 * int k) + 3600 \<le> a + 24 * 3600} = {..<24::nat}"
    by auto
  then show ?thesis
    using hourly_count[OF d s, of "\<lambda>t. a \<le> t + 3600 \<and> t + 3600 \<le> a + 24 * 3600"] by simp
qed

lemma key_window_filter:
  "filter (\<lambda>x. key x = k \<and> P x) rs = filter P (filter (\<lambda>x. key x = k) rs)"
  by (induction rs) auto


text \<open>
  C6. The expected number of points is \<open>\<lfloor>(end - start) in hours\<rfloor> + 1\<close> for every window
  that does not end before it starts, and in every record that the quality analysis
  produces, for every configuration and table; there the actual points are the readings
  of the record's device and parameter whose timestamp, moved one hour forward by the
  loader, lies in the window, and the completeness is
  \<open>actual_points / expected_points * 100\<close>, rounded to two decimals in the record.  A window
  of 24 hours gives 25 expected points.  For a configured device with exactly one reading
  at each of 25 consecutive hours, the analysis of a 24-hour window produces a record: with
  25 actual points, completeness 100 and no completeness flag when the readings are
  stamped from one hour before the start of the window to one hour before its end; with 24
  actual points and completeness 96 when they are stamped at every hour of the window,
  from its start to its end.
\<close>

theorem expected_points_and_completeness_after_shift:
  "(analysis_start_date an \<le> analysis_end_date an \<longrightarrow>
      calculate_expected_points an =
        \<lfloor>real_of_int (analysis_end_date an - analysis_start_date an) / 3600\<rfloor> + 1) \<and>
   (\<forall>r \<in> set (quality_analysis cfg csv).
      q_expected_points r = \<lfloor>real_of_int (end_date cfg - start_date cfg) / 3600\<rfloor> + 1 \<and>
      q_actual_points r =
        length (filter (\<lambda>x. (r_device_id x, r_device_name x, r_param_key x) =
                             (q_device_id r, q_device_name r, q_param_key r) \<and>
                             start_date cfg \<le> r_timestamp x + 3600 \<and>
                             r_timestamp x + 3600 \<le> end_date cfg)
                  (rows csv)) \<and>
      q_completeness_percentage r =
        py_round2 (real (q_actual_points r) / real_of_int (q_expected_points r) * 100)) \<and>
   (analysis_end_date an = analysis_start_date an + 24 * 3600 \<longrightarrow>
      calculate_expected_points an = 25) \<and>
   (end_date cfg = start_date cfg + 24 * 3600 \<and> configured cfg (device_id, param_key) \<and>
    distinct (map r_timestamp
                (filter (\<lambda>x. (r_device_id x, r_device_name x, r_param_key x) =
                              (device_id, device_name, param_key)) (rows csv))) \<longrightarrow>
      (set (map r_timestamp
              (filter (\<lambda>x. (r_device_id x, r_device_name x, r_param_key x) =
                            (device_id, device_name, param_key)) (rows csv))) =
       set (map (\<lambda>k. start_date cfg + 3600 * int k - 3600) [0..<25]) \<longrightarrow>
         (\<exists>r \<in> set (quality_analysis cfg csv).
            q_device_id r = device_id \<and> q_device_name r = device_name \<and>
            q_param_key r = param_key \<and>
            q_expected_points r = 25 \<and> q_actual_points r = 25 \<and>
            q_completeness_percentage r = 100 \<and>
            ''Poor Completeness'' \<notin> set (q_quality_flags r))) \<and>
      (set (map r_timestamp
              (filter (\<lambda>x. (r_device_id x, r_device_name x, r_param_key x) =
                            (device_id, device_name, param_key)) (rows csv))) =
       set (map (\<lambda>k. start_date cfg + 3600 * int k) [0..<25]) \<longrightarrow>
         (\<exists>r \<in> set (quality_analysis cfg csv).
            q_device_id r = device_id \<and> q_device_name r = device_name \<and>
            q_param_key r = param_key \<and>
            q_expected_points r = 25 \<and> q_actual_points r = 24 \<and>
            q_completeness_percentage r = 96 \<and>
            ''Poor Completeness'' \<notin> set (q_quality_flags r))))"
proof (intro conjI impI ballI)
  assume "analysis_start_date an \<le> analysis_end_date an"
  then show "calculate_expected_points an =
        \<lfloor>real_of_int (analysis_end_date an - analysis_start_date an) / 3600\<rfloor> + 1"
    by (rule expected_points_floor)
next
  fix r assume "r \<in> set (quality_analysis cfg csv)"
  then have r: "r \<in> set (analyze_quality (quality_analyzer_init cfg csv))"
    by (simp add: quality_analysis_def)
  define an0 :: analyzer where "an0 = \<lparr>an_config = cfg, an_data = load_data csv,
        analysis_start_date = start_date cfg, analysis_end_date = end_date cfg\<rparr>"
  have init: "quality_analyzer_init cfg csv = filter_and_sort an0"
    by (simp add: quality_analyzer_init_def an0_def)
  from analyze_quality_mem[OF r] obtain device_id device_name param_key grp where
    g: "((device_id, device_name, param_key), grp) \<in>
       set (groupby (\<lambda>r. (r_device_id r, r_device_name r, r_param_key r))
              (rows (an_data (quality_analyzer_init cfg csv))))"
    and a: "analyze_device_quality (quality_analyzer_init cfg csv)
              ((an_data (quality_analyzer_init cfg csv))\<lparr>rows := grp\<rparr>)
              device_id device_name param_key = Inr r"
    by blast
  from groupby_nonempty[OF g] obtain x where x: "x \<in> set (rows (an_data (filter_and_sort an0)))"
    unfolding init by (cases grp) auto
  from prepared_rows_in_period[OF x] have le: "start_date cfg \<le> end_date cfg"
    by (simp add: in_period_def an0_def)
  then have le': "analysis_start_date (quality_analyzer_init cfg csv)
                   \<le> analysis_end_date (quality_analyzer_init cfg csv)"
    by (simp add: init filter_and_sort_dates an0_def)
  note f = analyze_device_quality_Inr[OF a]
  show "q_expected_points r = \<lfloor>real_of_int (end_date cfg - start_date cfg) / 3600\<rfloor> + 1"
    using expected_points_floor[OF le'] f(4)
    by (simp add: init filter_and_sort_dates an0_def)
  have "q_actual_points r =
        length (filter (\<lambda>x. (r_device_id x, r_device_name x, r_param_key x) =
                             (q_device_id r, q_device_name r, q_param_key r))
                  (rows (an_data (quality_analyzer_init cfg csv))))"
    using groupby_group[OF g] f(1,2,3,5) by simp
  then show "q_actual_points r =
        length (filter (\<lambda>x. (r_device_id x, r_device_name x, r_param_key x) =
                             (q_device_id r, q_device_name r, q_param_key r) \<and>
                             start_date cfg \<le> r_timestamp x + 3600 \<and>
                             r_timestamp x + 3600 \<le> end_date cfg)
                  (rows csv))"
    by (simp only: prepared_count)
  show "q_completeness_percentage r =
        py_round2 (real (q_actual_points r) / real_of_int (q_expected_points r) * 100)"
    using expected_points_pos[OF le'] f(4,5,6) by simp
next
  assume w: "analysis_end_date an = analysis_start_date an + 24 * 3600"
  then show "calculate_expected_points an = 25"
    by (simp add: calculate_expected_points_def py_int_def)
next
  assume h: "end_date cfg = start_date cfg + 24 * 3600 \<and> configured cfg (device_id, param_key) \<and>
    distinct (map r_timestamp
                (filter (\<lambda>x. (r_device_id x, r_device_name x, r_param_key x) =
                              (device_id, device_name, param_key)) (rows csv)))"
  assume s: "set (map r_timestamp
              (filter (\<lambda>x. (r_device_id x, r_device_name x, r_param_key x) =
                            (device_id, device_name, param_key)) (rows csv))) =
       set (map (\<lambda>k. start_date cfg + 3600 * int k - 3600) [0..<25])"
  from h have w: "end_date cfg = start_date cfg + 24 * 3600"
    and conf: "configured cfg (device_id, param_key)"
    and d: "distinct (map r_timestamp
                (filter (\<lambda>x. (r_device_id x, r_device_name x, r_param_key x) =
                              (device_id, device_name, param_key)) (rows csv)))"
    by blast+
  have n: "length (filter (\<lambda>x. (r_device_id x, r_device_name x, r_param_key x) =
                                (device_id, device_name, param_key) \<and>
                              start_date cfg \<le> r_timestamp x + 3600 \<and>
                              r_timestamp x + 3600 \<le> end_date cfg) (rows csv)) = 25"
    unfolding key_window_filter w by (rule shifted_hourly_count[OF d s])
  from quality_record_exists[OF conf w n]
  show "\<exists>r \<in> set (quality_analysis cfg csv).
            q_device_id r = device_id \<and> q_device_name r = device_name \<and>
            q_param_key r = param_key \<and>
            q_expected_points r = 25 \<and> q_actual_points r = 25 \<and>
            q_completeness_percentage r = 100 \<and>
            ''Poor Completeness'' \<notin> set (q_quality_flags r)"
    by (simp add: py_round2_100)
next
  assume h: "end_date cfg = start_date cfg + 24 * 3600 \<and> configured cfg (device_id, param_key) \<and>
    distinct (map r_timestamp
                (filter (\<lambda>x. (r_device_id x, r_device_name x, r_param_key x) =
                              (device_id, device_name, param_key)) (rows csv)))"
  assume s: "set (map r_timestamp
              (filter (\<lambda>x. (r_device_id x, r_device_name x, r_param_key x) =
                            (device_id, device_name, param_key)) (rows csv))) =
       set (map (\<lambda>k. start_date cfg + 3600 * int k) [0..<25])"
  from h have w: "end_date cfg = start_date cfg + 24 * 3600"
    and conf: "configured cfg (device_id, param_key)"
    and d: "distinct (map r_timestamp
                (filter (\<lambda>x. (r_device_id x, r_device_name x, r_param_key x) =
                              (device_id, device_name, param_key)) (rows csv)))"
    by blast+
  have n: "length (filter (\<lambda>x. (r_device_id x, r_device_name x, r_param_key x) =
                                (device_id, device_name, param_key) \<and>
                              start_date cfg \<le> r_timestamp x + 3600 \<and>
                              r_timestamp x + 3600 \<le> end_date cfg) (rows csv)) = 24"
    unfolding key_window_filter w by (rule window_hourly_count[OF d s])
  from quality_record_exists[OF conf w n]
  show "\<exists>r \<in> set (quality_analysis cfg csv).
            q_device_id r = device_id \<and> q_device_name r = device_name \<and>
            q_param_key r = param_key \<and>
            q_expected_points r = 25 \<and> q_actual_points r = 24 \<and>
            q_completeness_percentage r = 96 \<and>
            ''Poor Completeness'' \<notin> set (q_quality_flags r)"
    by (simp add: py_round2_96)
qed

lemma example_hourly_stamps:
  "configured example_config (1, ''EACTIVE'')"
  "end_date example_config = start_date example_config + 24 * 3600"
  "distinct (map r_timestamp
     (filter (\<lambda>x. (r_device_id x, r_device_name x, r_param_key x) = (1, ''Meter A'', ''EACTIVE''))
        (rows example_hourly_csv)))"
  "set (map r_timestamp
     (filter (\<lambda>x. (r_device_id x, r_device_name x, r_param_key x) = (1, ''Meter A'', ''EACTIVE''))
        (rows example_hourly_csv))) =
   set (map (\<lambda>k. start_date example_config + 3600 * int k - 3600) [0..<25])"
  "distinct (map r_timestamp
     (filter (\<lambda>x. (r_device_id x, r_device_name x, r_param_key x) = (1, ''Meter A'', ''EACTIVE''))
        (rows example_window_hourly_csv)))"
  "set (map r_timestamp
     (filter (\<lambda>x. (r_device_id x, r_device_name x, r_param_key x) = (1, ''Meter A'', ''EACTIVE''))
        (rows example_window_hourly_csv))) =
   set (map (\<lambda>k. start_date example_config + 3600 * int k) [0..<25])"
  by code_simp+

theorem expected_points_and_completeness_after_shift_witness:
  "configured example_config (1, ''EACTIVE'') \<and>
   end_date example_config = start_date example_config + 24 * 3600 \<and>
   calculate_expected_points (quality_analyzer_init example_config example_hourly_csv) = 25 \<and>
   (\<exists>r \<in> set (quality_analysis example_config example_hourly_csv).
      q_device_id r = 1 \<and> q_device_name r = ''Meter A'' \<and> q_param_key r = ''EACTIVE'' \<and>
      q_expected_points r = 25 \<and> q_actual_points r = 25 \<and>
      q_completeness_percentage r = 100 \<and> ''Poor Completeness'' \<notin> set (q_quality_flags r)) \<and>
   (\<exists>r \<in> set (quality_analysis example_config example_window_hourly_csv).
      q_device_id r = 1 \<and> q_device_name r = ''Meter A'' \<and> q_param_key r = ''EACTIVE'' \<and>
      q_expected_points r = 25 \<and> q_actual_points r = 24 \<and>
      q_completeness_percentage r = 96 \<and> ''Poor Completeness'' \<notin> set (q_quality_flags r))"
proof -
  have w: "analysis_end_date (quality_analyzer_init example_config example_hourly_csv) =
           analysis_start_date (quality_analyzer_init example_config example_hourly_csv) + 24 * 3600"
    by (simp add: quality_analyzer_init_def filter_and_sort_def example_config_def)
  note t1 = expected_points_and_completeness_after_shift
    [of "quality_analyzer_init example_config example_hourly_csv"
        example_config example_hourly_csv 1 "''EACTIVE''" "''Meter A''"]
  note t2 = expected_points_and_completeness_after_shift
    [of "quality_analyzer_init example_config example_hourly_csv"
        example_config example_window_hourly_csv 1 "''EACTIVE''" "''Meter A''"]
  from t1 w have e: "calculate_expected_points (quality_analyzer_init example_config example_hourly_csv) = 25"
    by blast
  from t1 example_hourly_stamps(1,2,3,4)
  have a: "\<exists>r \<in> set (quality_analysis example_config example_hourly_csv).
      q_device_id r = 1 \<and> q_device_name r = ''Meter A'' \<and> q_param_key r = ''EACTIVE'' \<and>
      q_expected_points r = 25 \<and> q_actual_points r = 25 \<and>
      q_completeness_percentage r = 100 \<and> ''Poor Completeness'' \<notin> set (q_quality_flags r)"
    by blast
  from t2 example_hourly_stamps(1,2,5,6)
  have b: "\<exists>r \<in> set (quality_analysis example_config example_window_hourly_csv).
      q_device_id r = 1 \<and> q_device_name r = ''Meter A'' \<and> q_param_key r = ''EACTIVE'' \<and>
      q_expected_points r = 25 \<and> q_actual_points r = 24 \<and>
      q_completeness_percentage r = 96 \<and> ''Poor Completeness'' \<notin> set (q_quality_flags r)"
    by blast
  show ?thesis using example_hourly_stamps(1,2) e a b by blast
qed

text \<open>
  C6 as stated fails: for the window of 24 hours from instant 0 and a table with a reading
  of Meter A at every hour of that window, from 0 to 86400, the loader moves the last
  reading out of the window, and the record has 25 expected points, 24 actual points and
  completeness 96.
\<close>

theorem readings_at_every_hour_of_the_window_give_96:
  "start_date example_config = 0 \<and> end_date example_config = 24 * 3600 \<and>
   map r_device_id (rows example_window_hourly_csv) = replicate 25 1 \<and>
   map r_timestamp (rows example_window_hourly_csv) =
     [0, 3600, 7200, 10800, 14400, 18000, 21600, 25200, 28800, 32400, 36000, 39600, 43200,
      46800, 50400, 54000, 57600, 61200, 64800, 68400, 72000, 75600, 79200, 82800, 86400] \<and>
   quality_analysis example_config example_window_hourly_csv =
     [\<lparr>q_client_name = ''Kells'', q_device_id = 1, q_device_name = ''Meter A'',
       q_param_key = ''EACTIVE'', q_analysis_period_start = 0,
       q_analysis_period_end = 86400, q_expected_points = 25,
       q_actual_points = 24, q_completeness_percentage = 96,
       q_zero_count = 0, q_zero_percentage = 0, q_negative_count = 0,
       q_negative_percentage = 0, q_quality_flags = [],
       q_is_flagged = False\<rparr>]"
  unfolding quality_analysis_def by code_simp

text \<open>
  C1 (the behaviour of the code at a device without readings).  Meter A with the parameter
  EACTIVE is configured, and the table holds no reading of it in the window: the quality
  analysis produces no record for it, neither with completeness 0 nor with any other; its
  only record is that of Meter C.
\<close>

theorem zero_readings_device_gets_no_record:
  "configured example_config (1, ''EACTIVE'') \<and>
   filter (\<lambda>r. r_device_id r = 1 \<and> r_param_key r = ''EACTIVE'')
     (rows (an_data (quality_analyzer_init example_config example_partial_csv))) = [] \<and>
   quality_analysis example_config example_partial_csv =
     [\<lparr>q_client_name = ''Kells'', q_device_id = 3, q_device_name = ''Meter C'',
       q_param_key = ''WATER'', q_analysis_period_start = 0,
       q_analysis_period_end = 86400, q_expected_points = 25,
       q_actual_points = 2, q_completeness_percentage = 8,
       q_zero_count = 1, q_zero_percentage = 50, q_negative_count = 0,
       q_negative_percentage = 0,
       q_quality_flags = [''Poor Completeness'', ''High Zero Values''],
       q_is_flagged = True\<rparr>]"
  unfolding quality_analysis_def by code_simp


section \<open>The trend analyzer: properties\<close>

lemma trend_loop_eq:
  "fst (trend_loop an groups (acc, ws)) =
     acc @ concat (map (\<lambda>((device_id, device_name, param_key), grp).
       case device_config (an_config an) (device_id, param_key) of
         None \<Rightarrow> []
       | Some device_info \<Rightarrow>
           (case analyze_device_trend an ((an_data an)\<lparr>rows := grp\<rparr>)
                   device_id device_name param_key of
              Inl e \<Rightarrow> [] | Inr result \<Rightarrow> [result])) groups)"
proof (induction groups arbitrary: acc ws)
  case Nil
  show ?case by simp
next
  case (Cons g groups)
  obtain device_id device_name param_key grp where g: "g = ((device_id, device_name, param_key), grp)"
    by (metis prod.exhaust)
  show ?case
    unfolding g by (simp add: Cons.IH split: option.splits sum.splits)
qed

lemma trend_variance_zero_baseline:
  "period2_total \<noteq> 0 \<Longrightarrow>
   calculate_trend_variance threshold 0 period2_total =
     \<lparr>tm_percentage_change = 999.99, tm_absolute_difference = period2_total,
      tm_trend_direction = ''significant_increase'', tm_is_flagged = True,
      tm_baseline_period = 0, tm_comparison_period = period2_total\<rparr>"
  by (simp add: calculate_trend_variance_def)

lemma trend_variance_both_zero:
  "0 \<le> threshold \<Longrightarrow>
   calculate_trend_variance threshold 0 0 =
     \<lparr>tm_percentage_change = 0, tm_absolute_difference = 0,
      tm_trend_direction = ''stable'', tm_is_flagged = False,
      tm_baseline_period = 0, tm_comparison_period = 0\<rparr>"
  by (simp add: calculate_trend_variance_def)

lemma split_Inr_nonempty:
  "split_data_into_weeks device_data = Inr (p1, p2) \<Longrightarrow> rows device_data \<noteq> []"
  by (auto simp: split_data_into_weeks_def split: if_splits)

lemma py_round2_sentinel': "py_round2 (99999 / 100) = 99999 / 100"
  using py_round2_sentinel by simp

text \<open>
  C2, as amended.  A first-period total of zero with a second-period total that is not
  zero gives the sentinel: percentage change 999.99, direction
  \<open>significant_increase\<close>, flagged, whatever the threshold; so for the totals 0 and 5,
  and so in the record of every device group whose two halves have such totals.  When both
  totals are zero the change is 0, the direction \<open>stable\<close>, and the group is not flagged
  (for every threshold the analyzer accepts).
\<close>

theorem zero_baseline_with_nonzero_comparison_is_sentinel:
  "(period2_total \<noteq> 0 \<longrightarrow>
      calculate_trend_variance threshold 0 period2_total =
        \<lparr>tm_percentage_change = 999.99, tm_absolute_difference = period2_total,
         tm_trend_direction = ''significant_increase'', tm_is_flagged = True,
         tm_baseline_period = 0, tm_comparison_period = period2_total\<rparr>) \<and>
   calculate_trend_variance threshold 0 5 =
     \<lparr>tm_percentage_change = 999.99, tm_absolute_difference = 5,
      tm_trend_direction = ''significant_increase'', tm_is_flagged = True,
      tm_baseline_period = 0, tm_comparison_period = 5\<rparr> \<and>
   (split_data_into_weeks device_data = Inr (period1_data, period2_data) \<and>
    ps_total (calculate_period_totals period1_data) = 0 \<and>
    ps_total (calculate_period_totals period2_data) \<noteq> 0 \<longrightarrow>
      (\<exists>r. analyze_device_trend an device_data device_id device_name param_key = Inr r \<and>
           tr_percentage_change r = 999.99 \<and>
           tr_trend_direction r = ''significant_increase'' \<and>
           tr_is_flagged r)) \<and>
   (0 \<le> threshold \<longrightarrow>
      calculate_trend_variance threshold 0 0 =
        \<lparr>tm_percentage_change = 0, tm_absolute_difference = 0,
         tm_trend_direction = ''stable'', tm_is_flagged = False,
         tm_baseline_period = 0, tm_comparison_period = 0\<rparr>)"
proof (intro conjI impI)
  show "calculate_trend_variance threshold 0 5 =
     \<lparr>tm_percentage_change = 999.99, tm_absolute_difference = 5,
      tm_trend_direction = ''significant_increase'', tm_is_flagged = True,
      tm_baseline_period = 0, tm_comparison_period = 5\<rparr>"
    by (simp add: trend_variance_zero_baseline)
next
  assume a: "split_data_into_weeks device_data = Inr (period1_data, period2_data) \<and>
    ps_total (calculate_period_totals period1_data) = 0 \<and>
    ps_total (calculate_period_totals period2_data) \<noteq> 0"
  from a split_Inr_nonempty have "rows device_data \<noteq> []" by blast
  from first_client_name_nonempty[OF this]
  obtain client where c: "first_client_name device_data = Inr client" by blast
  from a show "\<exists>r. analyze_device_trend an device_data device_id device_name param_key = Inr r \<and>
           tr_percentage_change r = 999.99 \<and>
           tr_trend_direction r = ''significant_increase'' \<and>
           tr_is_flagged r"
    by (simp add: analyze_device_trend_def Let_def c trend_variance_zero_baseline py_round2_sentinel')
qed (simp_all add: trend_variance_zero_baseline trend_variance_both_zero)


lemma example_trend_zero:
  "trend_analysis example_config_14d (example_trend_csv 0 0 0 0) 10 =
     Inr [\<lparr>tr_client_name = ''Kells'', tr_device_id = 1,
           tr_device_name = ''Meter A'', tr_param_key = ''EACTIVE'',
           tr_analysis_period_start = 0, tr_analysis_period_end = 1209600,
           tr_period1_total = 0, tr_period1_average = 0, tr_period1_count = 2,
           tr_period1_min = Some 0, tr_period1_max = Some 0,
           tr_period2_total = 0, tr_period2_average = 0, tr_period2_count = 2,
           tr_period2_min = Some 0, tr_period2_max = Some 0,
           tr_percentage_change = 0, tr_absolute_difference = 0,
           tr_trend_direction = ''stable'', tr_is_flagged = False,
           tr_threshold_used = 10, tr_total_data_points = 4, tr_error = None\<rparr>]"
  by code_simp

lemma example_trend_rise:
  "trend_analysis example_config_14d (example_trend_csv 0 0 2 3) 10 =
     Inr [\<lparr>tr_client_name = ''Kells'', tr_device_id = 1,
           tr_device_name = ''Meter A'', tr_param_key = ''EACTIVE'',
           tr_analysis_period_start = 0, tr_analysis_period_end = 1209600,
           tr_period1_total = 0, tr_period1_average = 0, tr_period1_count = 2,
           tr_period1_min = Some 0, tr_period1_max = Some 0,
           tr_period2_total = 5, tr_period2_average = 5 / 2,
           tr_period2_count = 2, tr_period2_min = Some 2,
           tr_period2_max = Some 3, tr_percentage_change = 999.99,
           tr_absolute_difference = 5,
           tr_trend_direction = ''significant_increase'',
           tr_is_flagged = True, tr_threshold_used = 10,
           tr_total_data_points = 4, tr_error = None\<rparr>]"
  by code_simp

theorem zero_baseline_with_nonzero_comparison_is_sentinel_witness:
  "split_data_into_weeks (example_trend_group 0 0 2 3) =
     Inr ((example_trend_group 0 0 2 3)\<lparr>rows := take 2 (rows (example_trend_group 0 0 2 3))\<rparr>,
          (example_trend_group 0 0 2 3)\<lparr>rows := drop 2 (rows (example_trend_group 0 0 2 3))\<rparr>) \<and>
   (\<exists>r. analyze_device_trend example_trend_analyzer (example_trend_group 0 0 2 3)
          1 ''Meter A'' ''EACTIVE'' = Inr r \<and>
        tr_percentage_change r = 999.99 \<and>
        tr_trend_direction r = ''significant_increase'' \<and> tr_is_flagged r) \<and>
   calculate_trend_variance 10 0 5 =
     \<lparr>tm_percentage_change = 999.99, tm_absolute_difference = 5,
      tm_trend_direction = ''significant_increase'', tm_is_flagged = True,
      tm_baseline_period = 0, tm_comparison_period = 5\<rparr> \<and>
   trend_analysis example_config_14d (example_trend_csv 0 0 2 3) 10 =
     Inr [\<lparr>tr_client_name = ''Kells'', tr_device_id = 1,
           tr_device_name = ''Meter A'', tr_param_key = ''EACTIVE'',
           tr_analysis_period_start = 0, tr_analysis_period_end = 1209600,
           tr_period1_total = 0, tr_period1_average = 0, tr_period1_count = 2,
           tr_period1_min = Some 0, tr_period1_max = Some 0,
           tr_period2_total = 5, tr_period2_average = 5 / 2,
           tr_period2_count = 2, tr_period2_min = Some 2,
           tr_period2_max = Some 3, tr_percentage_change = 999.99,
           tr_absolute_difference = 5,
           tr_trend_direction = ''significant_increase'',
           tr_is_flagged = True, tr_threshold_used = 10,
           tr_total_data_points = 4, tr_error = None\<rparr>]"
proof -
  have split: "split_data_into_weeks (example_trend_group 0 0 2 3) =
     Inr ((example_trend_group 0 0 2 3)\<lparr>rows := take 2 (rows (example_trend_group 0 0 2 3))\<rparr>,
          (example_trend_group 0 0 2 3)\<lparr>rows := drop 2 (rows (example_trend_group 0 0 2 3))\<rparr>)"
    by code_simp
  have t1: "ps_total (calculate_period_totals
      ((example_trend_group 0 0 2 3)\<lparr>rows := take 2 (rows (example_trend_group 0 0 2 3))\<rparr>)) = 0"
    by code_simp
  have t2: "ps_total (calculate_period_totals
      ((example_trend_group 0 0 2 3)\<lparr>rows := drop 2 (rows (example_trend_group 0 0 2 3))\<rparr>)) = 5"
    by code_simp
  show ?thesis
    using zero_baseline_with_nonzero_comparison_is_sentinel[of 5 10 "example_trend_group 0 0 2 3"
        "(example_trend_group 0 0 2 3)\<lparr>rows := take 2 (rows (example_trend_group 0 0 2 3))\<rparr>"
        "(example_trend_group 0 0 2 3)\<lparr>rows := drop 2 (rows (example_trend_group 0 0 2 3))\<rparr>"
        example_trend_analyzer 1 "''Meter A''" "''EACTIVE''"]
      split t1 t2 example_trend_rise
    by simp
qed


text \<open>
  C2 as stated fails: a device group whose readings are all zero has a first-period total
  of zero, and its record has the percentage change 0, the direction \<open>stable\<close> and no
  flag.
\<close>

theorem zero_baseline_all_zero_is_stable:
  "trend_analysis example_config_14d (example_trend_csv 0 0 0 0) 10 =
     Inr [\<lparr>tr_client_name = ''Kells'', tr_device_id = 1,
           tr_device_name = ''Meter A'', tr_param_key = ''EACTIVE'',
           tr_analysis_period_start = 0, tr_analysis_period_end = 1209600,
           tr_period1_total = 0, tr_period1_average = 0, tr_period1_count = 2,
           tr_period1_min = Some 0, tr_period1_max = Some 0,
           tr_period2_total = 0, tr_period2_average = 0, tr_period2_count = 2,
           tr_period2_min = Some 0, tr_period2_max = Some 0,
           tr_percentage_change = 0, tr_absolute_difference = 0,
           tr_trend_direction = ''stable'', tr_is_flagged = False,
           tr_threshold_used = 10, tr_total_data_points = 4, tr_error = None\<rparr>] \<and>
   tm_percentage_change (calculate_trend_variance 10 0 0) \<noteq> 999.99 \<and>
   tm_trend_direction (calculate_trend_variance 10 0 0) \<noteq> ''significant_increase'' \<and>
   \<not> tm_is_flagged (calculate_trend_variance 10 0 0)"
  by (simp add: example_trend_zero calculate_trend_variance_def)



section \<open>The out-of-hours analyzer: properties\<close>

lemma consumption_loop_eq:
  "fst (consumption_loop an groups (acc, ws)) =
     acc @ concat (map (\<lambda>((analysis_date, device_id, device_name, param_key), grp).
       case device_config (an_config an) (device_id, param_key) of
         None \<Rightarrow> []
       | Some device_info \<Rightarrow>
           (case analyze_device_consumption an ((an_data an)\<lparr>rows := grp\<rparr>)
                   device_id device_name param_key analysis_date of
              None \<Rightarrow> [] | Some result \<Rightarrow> [result])) groups)"
proof (induction groups arbitrary: acc ws)
  case Nil
  show ?case by simp
next
  case (Cons g groups)
  obtain analysis_date device_id device_name param_key grp
    where g: "g = ((analysis_date, device_id, device_name, param_key), grp)"
    by (metis prod.exhaust)
  show ?case
    unfolding g by (simp add: Cons.IH split: option.splits)
qed


lemma identify_flag_iff:
  "fst (identify_consumption_issues threshold stats) \<longleftrightarrow>
     cs_working_hours_consumption stats < cs_out_of_hours_consumption stats \<or>
     threshold < cs_out_of_hours_percentage stats"
  by (simp add: identify_consumption_issues_def Let_def)

lemma daily_total_nonzero_nonempty:
  "cs_total_consumption (calculate_daily_consumption device_data) \<noteq> 0 \<Longrightarrow> rows device_data \<noteq> []"
  by (auto simp: calculate_daily_consumption_def)

lemma analyze_device_consumption_None:
  "cs_total_consumption (calculate_daily_consumption device_data) = 0 \<Longrightarrow>
   analyze_device_consumption an device_data device_id device_name param_key analysis_date = None"
  by (simp add: analyze_device_consumption_def Let_def)

lemma analyze_device_consumption_Some_iff:
  assumes "cs_total_consumption (calculate_daily_consumption device_data) \<noteq> 0"
  shows "(\<exists>r. analyze_device_consumption an device_data device_id device_name param_key analysis_date = Some r)
     \<longleftrightarrow> fst (identify_consumption_issues (out_of_hours_threshold an)
                 (calculate_daily_consumption device_data))"
proof -
  from first_client_name_nonempty[OF daily_total_nonzero_nonempty[OF assms]]
  obtain client where c: "first_client_name device_data = Inr client" by blast
  show ?thesis
    using assms
    by (cases "identify_consumption_issues (out_of_hours_threshold an)
                 (calculate_daily_consumption device_data)")
       (simp add: analyze_device_consumption_def Let_def c)
qed

lemma analyze_device_consumption_Some:
  assumes "analyze_device_consumption an device_data device_id device_name param_key analysis_date = Some r"
  shows "o_is_flagged r" "o_analysis_date r = analysis_date" "o_device_id r = device_id"
    "o_device_name r = device_name" "o_param_key r = param_key"
    "cs_total_consumption (calculate_daily_consumption device_data) \<noteq> 0"
    "fst (identify_consumption_issues (out_of_hours_threshold an)
           (calculate_daily_consumption device_data))"
  using assms
  by (auto simp: analyze_device_consumption_def Let_def split: if_splits prod.splits sum.splits)

lemma daily_consumption_sums:
  "cs_working_hours_consumption (calculate_daily_consumption device_data) =
     sum_list (map r_value (filter is_working_hours (rows device_data)))"
  "cs_out_of_hours_consumption (calculate_daily_consumption device_data) =
     sum_list (map r_value (filter (\<lambda>r. \<not> is_working_hours r) (rows device_data)))"
  "cs_total_consumption (calculate_daily_consumption device_data) =
     cs_working_hours_consumption (calculate_daily_consumption device_data) +
     cs_out_of_hours_consumption (calculate_daily_consumption device_data)"
  "cs_out_of_hours_percentage (calculate_daily_consumption device_data) =
     (if 0 < cs_total_consumption (calculate_daily_consumption device_data)
      then cs_out_of_hours_consumption (calculate_daily_consumption device_data) /
           cs_total_consumption (calculate_daily_consumption device_data) * 100
      else 0)"
  by (simp_all add: calculate_daily_consumption_def Let_def)

lemma is_working_hours_iff:
  "is_working_hours r \<longleftrightarrow> 7 * 3600 \<le> r_timestamp r mod 86400 \<and> r_timestamp r mod 86400 < 19 * 3600"
  by (simp add: is_working_hours_def time_only_def working_hours_start_def working_hours_end_def)


text \<open>
  C5. For every threshold and every day of a device: the issue check flags exactly when
  the out-of-hours sum exceeds the working-hours sum or the out-of-hours percentage
  exceeds the threshold, where the working-hours sum is over the readings from 07:00
  inclusive to 19:00 exclusive, the out-of-hours sum over all others, and the percentage
  is the out-of-hours share of a positive total (and 0 otherwise).  A day whose total is
  zero is skipped before that check: it produces no record.  A day whose total is not
  zero produces a record exactly when it is flagged.  With the threshold 30, a day with 80
  in working hours and 20 out of hours is not flagged, and a day with 40 and 60 is.
\<close>

theorem out_of_hours_flagging_rule:
  "(fst (identify_consumption_issues threshold stats) \<longleftrightarrow>
      cs_working_hours_consumption stats < cs_out_of_hours_consumption stats \<or>
      threshold < cs_out_of_hours_percentage stats) \<and>
   cs_working_hours_consumption (calculate_daily_consumption device_data) =
     sum_list (map r_value
       (filter (\<lambda>r. 7 * 3600 \<le> r_timestamp r mod 86400 \<and> r_timestamp r mod 86400 < 19 * 3600)
          (rows device_data))) \<and>
   cs_out_of_hours_consumption (calculate_daily_consumption device_data) =
     sum_list (map r_value
       (filter (\<lambda>r. \<not> (7 * 3600 \<le> r_timestamp r mod 86400 \<and> r_timestamp r mod 86400 < 19 * 3600))
          (rows device_data))) \<and>
   cs_total_consumption (calculate_daily_consumption device_data) =
     cs_working_hours_consumption (calculate_daily_consumption device_data) +
     cs_out_of_hours_consumption (calculate_daily_consumption device_data) \<and>
   cs_out_of_hours_percentage (calculate_daily_consumption device_data) =
     (if 0 < cs_total_consumption (calculate_daily_consumption device_data)
      then cs_out_of_hours_consumption (calculate_daily_consumption device_data) /
           cs_total_consumption (calculate_daily_consumption device_data) * 100
      else 0) \<and>
   (cs_total_consumption (calculate_daily_consumption device_data) = 0 \<longrightarrow>
      analyze_device_consumption an device_data device_id device_name param_key analysis_date = None) \<and>
   (cs_total_consumption (calculate_daily_consumption device_data) \<noteq> 0 \<longrightarrow>
      ((\<exists>r. analyze_device_consumption an device_data device_id device_name param_key analysis_date
             = Some r) \<longleftrightarrow>
       cs_working_hours_consumption (calculate_daily_consumption device_data)
         < cs_out_of_hours_consumption (calculate_daily_consumption device_data) \<or>
       out_of_hours_threshold an
         < cs_out_of_hours_percentage (calculate_daily_consumption device_data))) \<and>
   \<not> fst (identify_consumption_issues 30
            \<lparr>cs_working_hours_consumption = 80, cs_out_of_hours_consumption = 20,
             cs_total_consumption = 100, cs_out_of_hours_percentage = 20,
             cs_data_points_working = n_working, cs_data_points_out_of_hours = n_out\<rparr>) \<and>
   fst (identify_consumption_issues 30
          \<lparr>cs_working_hours_consumption = 40, cs_out_of_hours_consumption = 60,
           cs_total_consumption = 100, cs_out_of_hours_percentage = 60,
           cs_data_points_working = n_working, cs_data_points_out_of_hours = n_out\<rparr>)"
proof -
  have wh: "filter is_working_hours (rows device_data) =
      filter (\<lambda>r. 7 * 3600 \<le> r_timestamp r mod 86400 \<and> r_timestamp r mod 86400 < 19 * 3600)
          (rows device_data)"
    by (rule filter_cong) (simp_all add: is_working_hours_iff)
  have ooh: "filter (\<lambda>r. \<not> is_working_hours r) (rows device_data) =
      filter (\<lambda>r. \<not> (7 * 3600 \<le> r_timestamp r mod 86400 \<and> r_timestamp r mod 86400 < 19 * 3600))
          (rows device_data)"
    by (rule filter_cong) (simp_all add: is_working_hours_iff)
  note sums = daily_consumption_sums[of device_data, unfolded wh ooh]
  have skip: "cs_total_consumption (calculate_daily_consumption device_data) = 0 \<longrightarrow>
      analyze_device_consumption an device_data device_id device_name param_key analysis_date = None"
    by (simp add: analyze_device_consumption_None)
  have flag: "cs_total_consumption (calculate_daily_consumption device_data) \<noteq> 0 \<longrightarrow>
      ((\<exists>r. analyze_device_consumption an device_data device_id device_name param_key analysis_date
             = Some r) \<longleftrightarrow>
       cs_working_hours_consumption (calculate_daily_consumption device_data)
         < cs_out_of_hours_consumption (calculate_daily_consumption device_data) \<or>
       out_of_hours_threshold an
         < cs_out_of_hours_percentage (calculate_daily_consumption device_data))"
    using analyze_device_consumption_Some_iff[of device_data an device_id device_name param_key analysis_date]
    by (simp add: identify_flag_iff)
  have ex1: "\<not> fst (identify_consumption_issues 30
            \<lparr>cs_working_hours_consumption = 80, cs_out_of_hours_consumption = 20,
             cs_total_consumption = 100, cs_out_of_hours_percentage = 20,
             cs_data_points_working = n_working, cs_data_points_out_of_hours = n_out\<rparr>)"
    by (simp add: identify_flag_iff)
  have ex2: "fst (identify_consumption_issues 30
          \<lparr>cs_working_hours_consumption = 40, cs_out_of_hours_consumption = 60,
           cs_total_consumption = 100, cs_out_of_hours_percentage = 60,
           cs_data_points_working = n_working, cs_data_points_out_of_hours = n_out\<rparr>)"
    by (simp add: identify_flag_iff)
  show ?thesis
    using identify_flag_iff[of threshold stats] sums skip flag ex1 ex2 by blast
qed


lemma example_day_flagged:
  "out_of_hours_analysis example_config (example_day_csv 80 20 40 60) 30 =
     Inr [\<lparr>o_client_name = ''Kells'', o_analysis_date = 0, o_device_id = 3,
           o_device_name = ''Meter C'', o_param_key = ''WATER'',
           o_analysis_period_start = 0, o_analysis_period_end = 86400,
           o_total_consumption = 100, o_working_hours_consumption = 40,
           o_out_of_hours_consumption = 60, o_out_of_hours_percentage = 60,
           o_data_points_working = 1, o_data_points_out_of_hours = 1,
           o_issues_identified = [Exceeds_working_hours, Exceeds_threshold 30],
           o_is_flagged = True, o_threshold_used = 30\<rparr>]"
  by code_simp

lemma example_day_stats:
  "calculate_daily_consumption (example_day_group 1 80 20 40 60) =
     \<lparr>cs_working_hours_consumption = 80, cs_out_of_hours_consumption = 20,
      cs_total_consumption = 100, cs_out_of_hours_percentage = 20,
      cs_data_points_working = 1, cs_data_points_out_of_hours = 1\<rparr>"
  "calculate_daily_consumption (example_day_group 3 80 20 40 60) =
     \<lparr>cs_working_hours_consumption = 40, cs_out_of_hours_consumption = 60,
      cs_total_consumption = 100, cs_out_of_hours_percentage = 60,
      cs_data_points_working = 1, cs_data_points_out_of_hours = 1\<rparr>"
  "calculate_daily_consumption (example_day_group 1 (- 5) 5 70 30) =
     \<lparr>cs_working_hours_consumption = - 5, cs_out_of_hours_consumption = 5,
      cs_total_consumption = 0, cs_out_of_hours_percentage = 0,
      cs_data_points_working = 1, cs_data_points_out_of_hours = 1\<rparr>"
  by code_simp+

theorem out_of_hours_flagging_rule_witness:
  "out_of_hours_analysis example_config (example_day_csv 80 20 40 60) 30 =
     Inr [\<lparr>o_client_name = ''Kells'', o_analysis_date = 0, o_device_id = 3,
           o_device_name = ''Meter C'', o_param_key = ''WATER'',
           o_analysis_period_start = 0, o_analysis_period_end = 86400,
           o_total_consumption = 100, o_working_hours_consumption = 40,
           o_out_of_hours_consumption = 60, o_out_of_hours_percentage = 60,
           o_data_points_working = 1, o_data_points_out_of_hours = 1,
           o_issues_identified = [Exceeds_working_hours, Exceeds_threshold 30],
           o_is_flagged = True, o_threshold_used = 30\<rparr>] \<and>
   analyze_device_consumption example_ooh_analyzer (example_day_group 1 80 20 40 60)
     1 ''Meter A'' ''EACTIVE'' 0 = None \<and>
   (\<exists>r. analyze_device_consumption example_ooh_analyzer (example_day_group 3 80 20 40 60)
          3 ''Meter C'' ''WATER'' 0 = Some r) \<and>
   cs_total_consumption (calculate_daily_consumption (example_day_group 1 (- 5) 5 70 30)) = 0 \<and>
   analyze_device_consumption example_ooh_analyzer (example_day_group 1 (- 5) 5 70 30)
     1 ''Meter A'' ''EACTIVE'' 0 = None"
proof -
  have thr: "out_of_hours_threshold example_ooh_analyzer = 30"
    by (simp add: example_ooh_analyzer_def)
  have a: "analyze_device_consumption example_ooh_analyzer (example_day_group 1 80 20 40 60)
     1 ''Meter A'' ''EACTIVE'' 0 = None"
    using out_of_hours_flagging_rule[of 30 "calculate_daily_consumption (example_day_group 1 80 20 40 60)"
        "example_day_group 1 80 20 40 60" example_ooh_analyzer 1 "''Meter A''" "''EACTIVE''" 0 1 1]
    by (simp add: example_day_stats thr)
  have c: "\<exists>r. analyze_device_consumption example_ooh_analyzer (example_day_group 3 80 20 40 60)
          3 ''Meter C'' ''WATER'' 0 = Some r"
    using out_of_hours_flagging_rule[of 30 "calculate_daily_consumption (example_day_group 3 80 20 40 60)"
        "example_day_group 3 80 20 40 60" example_ooh_analyzer 3 "''Meter C''" "''WATER''" 0 1 1]
    by (simp add: example_day_stats thr)
  have z: "analyze_device_consumption example_ooh_analyzer (example_day_group 1 (- 5) 5 70 30)
     1 ''Meter A'' ''EACTIVE'' 0 = None"
    using out_of_hours_flagging_rule[of 30 "calculate_daily_consumption (example_day_group 1 (- 5) 5 70 30)"
        "example_day_group 1 (- 5) 5 70 30" example_ooh_analyzer 1 "''Meter A''" "''EACTIVE''" 0 1 1]
    by (simp add: example_day_stats thr)
  show ?thesis
    using a c z example_day_flagged by (simp add: example_day_stats)
qed


lemma consumption_steps_keys:
  "map (\<lambda>r. (o_analysis_date r, o_device_id r, o_device_name r, o_param_key r))
       (concat (map (\<lambda>((analysis_date, device_id, device_name, param_key), grp).
         case device_config (an_config an) (device_id, param_key) of
           None \<Rightarrow> []
         | Some device_info \<Rightarrow>
             (case analyze_device_consumption an ((an_data an)\<lparr>rows := grp\<rparr>)
                     device_id device_name param_key analysis_date of
                None \<Rightarrow> [] | Some result \<Rightarrow> [result])) groups)) =
     map fst (filter (\<lambda>((analysis_date, device_id, device_name, param_key), grp).
         device_config (an_config an) (device_id, param_key) \<noteq> None \<and>
         cs_total_consumption (calculate_daily_consumption ((an_data an)\<lparr>rows := grp\<rparr>)) \<noteq> 0 \<and>
         fst (identify_consumption_issues (out_of_hours_threshold an)
                (calculate_daily_consumption ((an_data an)\<lparr>rows := grp\<rparr>)))) groups)"
proof (induction groups)
  case Nil
  show ?case by simp
next
  case (Cons g groups)
  obtain analysis_date device_id device_name param_key grp
    where g: "g = ((analysis_date, device_id, device_name, param_key), grp)"
    by (metis prod.exhaust)
  note IH = Cons.IH
  let ?dd = "(an_data an)\<lparr>rows := grp\<rparr>"
  let ?res = "analyze_device_consumption an ?dd device_id device_name param_key analysis_date"
  have step: "(case ?res of None \<Rightarrow> [] | Some result \<Rightarrow>
                 [(o_analysis_date result, o_device_id result, o_device_name result, o_param_key result)]) =
        (if cs_total_consumption (calculate_daily_consumption ?dd) \<noteq> 0 \<and>
            fst (identify_consumption_issues (out_of_hours_threshold an) (calculate_daily_consumption ?dd))
         then [(analysis_date, device_id, device_name, param_key)] else [])"
  proof (cases ?res)
    case None
    show ?thesis
    proof (cases "cs_total_consumption (calculate_daily_consumption ?dd) = 0")
      case True
      with None show ?thesis by simp
    next
      case False
      from analyze_device_consumption_Some_iff[OF False, of an device_id device_name param_key analysis_date] None
      show ?thesis by simp
    qed
  next
    case (Some r)
    from analyze_device_consumption_Some[OF Some] Some show ?thesis by simp
  qed
  show ?case
    unfolding g using IH step
    by (cases "device_config (an_config an) (device_id, param_key)"; cases ?res) (simp_all split: if_splits)
qed


lemma analyze_consumption_flagged:
  "r \<in> set (analyze_consumption an) \<Longrightarrow> o_is_flagged r"
proof -
  define step where "step = (\<lambda>((analysis_date, device_id, device_name, param_key), grp).
       case device_config (an_config an) (device_id, param_key) of
         None \<Rightarrow> []
       | Some device_info \<Rightarrow>
           (case analyze_device_consumption an ((an_data an)\<lparr>rows := grp\<rparr>)
                   device_id device_name param_key analysis_date of
              None \<Rightarrow> [] | Some result \<Rightarrow> [result]))"
  assume "r \<in> set (analyze_consumption an)"
  then have "r \<in> set (concat (map step
      (groupby (\<lambda>r. (date_of r, r_device_id r, r_device_name r, r_param_key r))
         (rows (an_data an)))))"
    unfolding analyze_consumption_def consumption_loop_eq step_def by simp
  then obtain g where r: "r \<in> set (step g)"
    by auto
  obtain analysis_date device_id device_name param_key grp
    where g: "g = ((analysis_date, device_id, device_name, param_key), grp)"
    by (metis prod.exhaust)
  from r have "analyze_device_consumption an ((an_data an)\<lparr>rows := grp\<rparr>)
                   device_id device_name param_key analysis_date = Some r"
    unfolding g step_def
    by (cases "device_config (an_config an) (device_id, param_key)";
        cases "analyze_device_consumption an ((an_data an)\<lparr>rows := grp\<rparr>)
                   device_id device_name param_key analysis_date"; simp)
  from analyze_device_consumption_Some(1)[OF this] show ?thesis .
qed

text \<open>
  C10. Every record of the out-of-hours analysis is flagged.  A device-day yields a
  record only if its total is not zero and it meets a flagging criterion, and none if it
  meets no criterion; the records of a run are, in order, those of the configured
  device-days with a non-zero total that meet a criterion, and no others.
\<close>

theorem out_of_hours_records_are_the_flagged_days:
  "(\<forall>r \<in> set (analyze_consumption an). o_is_flagged r) \<and>
   (analyze_device_consumption an device_data device_id device_name param_key analysis_date = Some r \<longrightarrow>
      o_is_flagged r \<and>
      cs_total_consumption (calculate_daily_consumption device_data) \<noteq> 0 \<and>
      fst (identify_consumption_issues (out_of_hours_threshold an)
             (calculate_daily_consumption device_data))) \<and>
   (\<not> fst (identify_consumption_issues (out_of_hours_threshold an)
             (calculate_daily_consumption device_data)) \<longrightarrow>
      analyze_device_consumption an device_data device_id device_name param_key analysis_date = None) \<and>
   map (\<lambda>r. (o_analysis_date r, o_device_id r, o_device_name r, o_param_key r))
       (analyze_consumption an) =
     map fst (filter (\<lambda>((analysis_date, device_id, device_name, param_key), grp).
         device_config (an_config an) (device_id, param_key) \<noteq> None \<and>
         cs_total_consumption (calculate_daily_consumption ((an_data an)\<lparr>rows := grp\<rparr>)) \<noteq> 0 \<and>
         fst (identify_consumption_issues (out_of_hours_threshold an)
                (calculate_daily_consumption ((an_data an)\<lparr>rows := grp\<rparr>))))
       (groupby (\<lambda>r. (date_of r, r_device_id r, r_device_name r, r_param_key r))
          (rows (an_data an))))"
proof (intro conjI impI ballI)
  fix x assume "x \<in> set (analyze_consumption an)"
  then show "o_is_flagged x" by (rule analyze_consumption_flagged)
next
  assume a: "analyze_device_consumption an device_data device_id device_name param_key analysis_date = Some r"
  from analyze_device_consumption_Some[OF a]
  show "o_is_flagged r"
    and "cs_total_consumption (calculate_daily_consumption device_data) \<noteq> 0"
    and "fst (identify_consumption_issues (out_of_hours_threshold an)
             (calculate_daily_consumption device_data))"
    by blast+
next
  assume n: "\<not> fst (identify_consumption_issues (out_of_hours_threshold an)
             (calculate_daily_consumption device_data))"
  show "analyze_device_consumption an device_data device_id device_name param_key analysis_date = None"
  proof (cases "analyze_device_consumption an device_data device_id device_name param_key analysis_date")
    case None
    then show ?thesis .
  next
    case (Some r')
    from analyze_device_consumption_Some(7)[OF Some] n show ?thesis by blast
  qed
next
  show "map (\<lambda>r. (o_analysis_date r, o_device_id r, o_device_name r, o_param_key r))
       (analyze_consumption an) =
     map fst (filter (\<lambda>((analysis_date, device_id, device_name, param_key), grp).
         device_config (an_config an) (device_id, param_key) \<noteq> None \<and>
         cs_total_consumption (calculate_daily_consumption ((an_data an)\<lparr>rows := grp\<rparr>)) \<noteq> 0 \<and>
         fst (identify_consumption_issues (out_of_hours_threshold an)
                (calculate_daily_consumption ((an_data an)\<lparr>rows := grp\<rparr>))))
       (groupby (\<lambda>r. (date_of r, r_device_id r, r_device_name r, r_param_key r))
          (rows (an_data an))))"
    unfolding analyze_consumption_def consumption_loop_eq
    by (simp only: append_Nil consumption_steps_keys)
qed


lemma example_day_consumption:
  "analyze_consumption (filter_and_sort example_ooh_analyzer) =
     [\<lparr>o_client_name = ''Kells'', o_analysis_date = 0, o_device_id = 3,
       o_device_name = ''Meter C'', o_param_key = ''WATER'',
       o_analysis_period_start = 0, o_analysis_period_end = 86400,
       o_total_consumption = 100, o_working_hours_consumption = 40,
       o_out_of_hours_consumption = 60, o_out_of_hours_percentage = 60,
       o_data_points_working = 1, o_data_points_out_of_hours = 1,
       o_issues_identified = [Exceeds_working_hours, Exceeds_threshold 30],
       o_is_flagged = True, o_threshold_used = 30\<rparr>]"
  by code_simp

theorem out_of_hours_records_are_the_flagged_days_witness:
  "map o_is_flagged (analyze_consumption (filter_and_sort example_ooh_analyzer)) = [True] \<and>
   map (\<lambda>r. (o_analysis_date r, o_device_id r, o_device_name r, o_param_key r))
     (analyze_consumption (filter_and_sort example_ooh_analyzer)) = [(0, 3, ''Meter C'', ''WATER'')] \<and>
   analyze_device_consumption (filter_and_sort example_ooh_analyzer)
     (example_day_group 1 80 20 40 60) 1 ''Meter A'' ''EACTIVE'' 0 = None"
proof -
  have thr: "out_of_hours_threshold (filter_and_sort example_ooh_analyzer) = 30"
    by (simp add: example_ooh_analyzer_def filter_and_sort_def)
  show ?thesis
    using out_of_hours_records_are_the_flagged_days[of "filter_and_sort example_ooh_analyzer" "example_day_group 1 80 20 40 60"
        1 "''Meter A''" "''EACTIVE''" 0]
    by (simp add: example_day_consumption example_day_stats thr identify_flag_iff)
qed

section \<open>Rows of devices that are not configured\<close>

lemma concat_map_filter_empty:
  "(\<And>x. x \<in> set xs \<Longrightarrow> \<not> P x \<Longrightarrow> f x = []) \<Longrightarrow>
   concat (map f (filter P xs)) = concat (map f xs)"
  by (induction xs) auto

lemma groupby_configured:
  "groupby (\<lambda>r. (r_device_id r, r_device_name r, r_param_key r))
     (filter (\<lambda>r. configured cfg (r_device_id r, r_param_key r)) rs) =
   filter (\<lambda>((device_id, device_name, param_key), grp). configured cfg (device_id, param_key))
     (groupby (\<lambda>r. (r_device_id r, r_device_name r, r_param_key r)) rs)"
  using groupby_filter[of "\<lambda>r. (r_device_id r, r_device_name r, r_param_key r)"
      "\<lambda>(device_id, device_name, param_key). configured cfg (device_id, param_key)" rs]
  by (simp add: case_prod_unfold)

lemma groupby_configured_day:
  "groupby (\<lambda>r. (date_of r, r_device_id r, r_device_name r, r_param_key r))
     (filter (\<lambda>r. configured cfg (r_device_id r, r_param_key r)) rs) =
   filter (\<lambda>((analysis_date, device_id, device_name, param_key), grp).
             configured cfg (device_id, param_key))
     (groupby (\<lambda>r. (date_of r, r_device_id r, r_device_name r, r_param_key r)) rs)"
  using groupby_filter[of "\<lambda>r. (date_of r, r_device_id r, r_device_name r, r_param_key r)"
      "\<lambda>(analysis_date, device_id, device_name, param_key). configured cfg (device_id, param_key)" rs]
  by (simp add: case_prod_unfold)

lemma drop_unconfigured_simps:
  "an_config (drop_unconfigured an) = an_config an"
  "analysis_start_date (drop_unconfigured an) = analysis_start_date an"
  "analysis_end_date (drop_unconfigured an) = analysis_end_date an"
  "(an_data (drop_unconfigured an))\<lparr>rows := grp\<rparr> = (an_data an)\<lparr>rows := grp\<rparr>"
  "rows (an_data (drop_unconfigured an)) =
     filter (\<lambda>r. configured (an_config an) (r_device_id r, r_param_key r)) (rows (an_data an))"
  by (simp_all add: drop_unconfigured_def)

lemma analyze_device_quality_drop:
  "analyze_device_quality (drop_unconfigured an) dd device_id device_name param_key =
   analyze_device_quality an dd device_id device_name param_key"
  unfolding analyze_device_quality_def calculate_expected_points_def drop_unconfigured_simps
  by (rule refl)

lemma analyze_quality_drop:
  "analyze_quality (drop_unconfigured an) = analyze_quality an"
  unfolding analyze_quality_def quality_loop_eq drop_unconfigured_simps
    analyze_device_quality_drop groupby_configured
  by (simp only: append_Nil)
     (rule concat_map_filter_empty, auto simp: device_config_configured[symmetric])


lemma drop_unconfigured_thresholds:
  "trend_threshold (drop_unconfigured ta) = trend_threshold ta"
  "out_of_hours_threshold (drop_unconfigured oa) = out_of_hours_threshold oa"
  by (simp_all add: drop_unconfigured_def)

lemma analyze_device_trend_drop:
  "analyze_device_trend (drop_unconfigured an) dd device_id device_name param_key =
   analyze_device_trend an dd device_id device_name param_key"
  unfolding analyze_device_trend_def drop_unconfigured_simps drop_unconfigured_thresholds
  by (rule refl)

lemma analyze_trends_drop:
  "analyze_trends (drop_unconfigured an) = analyze_trends an"
  unfolding analyze_trends_def trend_loop_eq drop_unconfigured_simps
    analyze_device_trend_drop groupby_configured
  by (simp only: append_Nil)
     (rule concat_map_filter_empty, auto simp: device_config_configured[symmetric])

lemma analyze_device_consumption_drop:
  "analyze_device_consumption (drop_unconfigured an) dd device_id device_name param_key analysis_date =
   analyze_device_consumption an dd device_id device_name param_key analysis_date"
  unfolding analyze_device_consumption_def drop_unconfigured_simps drop_unconfigured_thresholds
  by (rule refl)

lemma analyze_consumption_drop:
  "analyze_consumption (drop_unconfigured an) = analyze_consumption an"
  unfolding analyze_consumption_def consumption_loop_eq drop_unconfigured_simps
    analyze_device_consumption_drop groupby_configured_day
  by (simp only: append_Nil)
     (rule concat_map_filter_empty, auto simp: device_config_configured[symmetric])

lemma analyze_device_trend_Inr:
  assumes "analyze_device_trend an device_data device_id device_name param_key = Inr r"
  shows "tr_device_id r = device_id" "tr_device_name r = device_name" "tr_param_key r = param_key"
  using assms
  by (auto simp: analyze_device_trend_def Let_def split: sum.splits prod.splits)

lemma analyze_quality_configured:
  assumes "r \<in> set (analyze_quality an)"
  shows "configured (an_config an) (q_device_id r, q_param_key r)"
proof -
  from analyze_quality_mem[OF assms] obtain device_id device_name param_key grp where
    c: "device_config (an_config an) (device_id, param_key) \<noteq> None"
    and a: "analyze_device_quality an ((an_data an)\<lparr>rows := grp\<rparr>) device_id device_name param_key = Inr r"
    by blast
  from analyze_device_quality_Inr(1,3)[OF a] c show ?thesis
    by (auto simp: device_config_configured[symmetric])
qed

lemma analyze_trends_configured:
  assumes "r \<in> set (analyze_trends an)"
  shows "configured (an_config an) (tr_device_id r, tr_param_key r)"
proof -
  define step where "step = (\<lambda>((device_id, device_name, param_key), grp).
       case device_config (an_config an) (device_id, param_key) of
         None \<Rightarrow> []
       | Some device_info \<Rightarrow>
           (case analyze_device_trend an ((an_data an)\<lparr>rows := grp\<rparr>)
                   device_id device_name param_key of
              Inl e \<Rightarrow> [] | Inr result \<Rightarrow> [result]))"
  from assms have "r \<in> set (concat (map step
      (groupby (\<lambda>r. (r_device_id r, r_device_name r, r_param_key r)) (rows (an_data an)))))"
    unfolding analyze_trends_def trend_loop_eq step_def by simp
  then obtain g where r: "r \<in> set (step g)" by auto
  obtain device_id device_name param_key grp where gg: "g = ((device_id, device_name, param_key), grp)"
    by (metis prod.exhaust)
  from r have "device_config (an_config an) (device_id, param_key) \<noteq> None \<and>
    analyze_device_trend an ((an_data an)\<lparr>rows := grp\<rparr>) device_id device_name param_key = Inr r"
    unfolding gg step_def
    by (cases "device_config (an_config an) (device_id, param_key)";
        cases "analyze_device_trend an ((an_data an)\<lparr>rows := grp\<rparr>) device_id device_name param_key";
        simp)
  then show ?thesis
    using analyze_device_trend_Inr(1,3)[of an "(an_data an)\<lparr>rows := grp\<rparr>" device_id device_name param_key r]
    by (auto simp: device_config_configured[symmetric])
qed

lemma analyze_consumption_configured:
  assumes "r \<in> set (analyze_consumption an)"
  shows "configured (an_config an) (o_device_id r, o_param_key r)"
proof -
  define step where "step = (\<lambda>((analysis_date, device_id, device_name, param_key), grp).
       case device_config (an_config an) (device_id, param_key) of
         None \<Rightarrow> []
       | Some device_info \<Rightarrow>
           (case analyze_device_consumption an ((an_data an)\<lparr>rows := grp\<rparr>)
                   device_id device_name param_key analysis_date of
              None \<Rightarrow> [] | Some result \<Rightarrow> [result]))"
  from assms have "r \<in> set (concat (map step
      (groupby (\<lambda>r. (date_of r, r_device_id r, r_device_name r, r_param_key r))
         (rows (an_data an)))))"
    unfolding analyze_consumption_def consumption_loop_eq step_def by simp
  then obtain g where r: "r \<in> set (step g)" by auto
  obtain analysis_date device_id device_name param_key grp
    where gg: "g = ((analysis_date, device_id, device_name, param_key), grp)"
    by (metis prod.exhaust)
  from r have "device_config (an_config an) (device_id, param_key) \<noteq> None \<and>
    analyze_device_consumption an ((an_data an)\<lparr>rows := grp\<rparr>)
      device_id device_name param_key analysis_date = Some r"
    unfolding gg step_def
    by (cases "device_config (an_config an) (device_id, param_key)";
        cases "analyze_device_consumption an ((an_data an)\<lparr>rows := grp\<rparr>)
                 device_id device_name param_key analysis_date";
        simp)
  then show ?thesis
    using analyze_device_consumption_Some(3,5)[of an "(an_data an)\<lparr>rows := grp\<rparr>"
        device_id device_name param_key analysis_date r]
    by (auto simp: device_config_configured[symmetric])
qed

lemma quality_loop_warnings:
  "snd (quality_loop an groups (acc, ws)) =
     ws @ map (\<lambda>((device_id, device_name, param_key), grp). (device_id, param_key))
            (filter (\<lambda>((device_id, device_name, param_key), grp).
                       \<not> configured (an_config an) (device_id, param_key)) groups)"
proof (induction groups arbitrary: acc ws)
  case Nil
  show ?case by simp
next
  case (Cons g groups)
  obtain device_id device_name param_key grp where g: "g = ((device_id, device_name, param_key), grp)"
    by (metis prod.exhaust)
  show ?case
    unfolding g
    by (simp add: Cons.IH device_config_configured[symmetric] split: option.splits sum.splits)
qed

lemma trend_loop_warnings:
  "snd (trend_loop an groups (acc, ws)) =
     ws @ map (\<lambda>((device_id, device_name, param_key), grp). (device_id, param_key))
            (filter (\<lambda>((device_id, device_name, param_key), grp).
                       \<not> configured (an_config an) (device_id, param_key)) groups)"
proof (induction groups arbitrary: acc ws)
  case Nil
  show ?case by simp
next
  case (Cons g groups)
  obtain device_id device_name param_key grp where g: "g = ((device_id, device_name, param_key), grp)"
    by (metis prod.exhaust)
  show ?case
    unfolding g
    by (simp add: Cons.IH device_config_configured[symmetric] split: option.splits sum.splits)
qed

lemma consumption_loop_warnings:
  "snd (consumption_loop an groups (acc, ws)) =
     ws @ map (\<lambda>((analysis_date, device_id, device_name, param_key), grp). (device_id, param_key))
            (filter (\<lambda>((analysis_date, device_id, device_name, param_key), grp).
                       \<not> configured (an_config an) (device_id, param_key)) groups)"
proof (induction groups arbitrary: acc ws)
  case Nil
  show ?case by simp
next
  case (Cons g groups)
  obtain analysis_date device_id device_name param_key grp
    where g: "g = ((analysis_date, device_id, device_name, param_key), grp)"
    by (metis prod.exhaust)
  show ?case
    unfolding g
    by (simp add: Cons.IH device_config_configured[symmetric] split: option.splits)
qed

text \<open>
  C9. In each of the three analyses, every result record belongs to a device and
  parameter that correspond to an entry of the configuration; the results are the same as
  on the table from which the rows of all other pairs have been removed, so those rows
  contribute nothing; and the warnings are, in order, one for every group whose pair has
  no entry.
\<close>

theorem unconfigured_groups_are_dropped:
  "(\<forall>r \<in> set (analyze_quality qa). configured (an_config qa) (q_device_id r, q_param_key r)) \<and>
   analyze_quality (drop_unconfigured qa) = analyze_quality qa \<and>
   analyze_quality_warnings qa =
     map (\<lambda>((device_id, device_name, param_key), grp). (device_id, param_key))
       (filter (\<lambda>((device_id, device_name, param_key), grp).
                  \<not> configured (an_config qa) (device_id, param_key))
          (groupby (\<lambda>r. (r_device_id r, r_device_name r, r_param_key r)) (rows (an_data qa)))) \<and>
   (\<forall>r \<in> set (analyze_trends ta). configured (an_config ta) (tr_device_id r, tr_param_key r)) \<and>
   analyze_trends (drop_unconfigured ta) = analyze_trends ta \<and>
   analyze_trends_warnings ta =
     map (\<lambda>((device_id, device_name, param_key), grp). (device_id, param_key))
       (filter (\<lambda>((device_id, device_name, param_key), grp).
                  \<not> configured (an_config ta) (device_id, param_key))
          (groupby (\<lambda>r. (r_device_id r, r_device_name r, r_param_key r)) (rows (an_data ta)))) \<and>
   (\<forall>r \<in> set (analyze_consumption oa).
      configured (an_config oa) (o_device_id r, o_param_key r)) \<and>
   analyze_consumption (drop_unconfigured oa) = analyze_consumption oa \<and>
   analyze_consumption_warnings oa =
     map (\<lambda>((analysis_date, device_id, device_name, param_key), grp). (device_id, param_key))
       (filter (\<lambda>((analysis_date, device_id, device_name, param_key), grp).
                  \<not> configured (an_config oa) (device_id, param_key))
          (groupby (\<lambda>r. (date_of r, r_device_id r, r_device_name r, r_param_key r))
             (rows (an_data oa))))"
proof -
  have q: "analyze_quality_warnings qa =
     map (\<lambda>((device_id, device_name, param_key), grp). (device_id, param_key))
       (filter (\<lambda>((device_id, device_name, param_key), grp).
                  \<not> configured (an_config qa) (device_id, param_key))
          (groupby (\<lambda>r. (r_device_id r, r_device_name r, r_param_key r)) (rows (an_data qa))))"
    unfolding analyze_quality_warnings_def quality_loop_warnings by (simp only: append_Nil)
  have t: "analyze_trends_warnings ta =
     map (\<lambda>((device_id, device_name, param_key), grp). (device_id, param_key))
       (filter (\<lambda>((device_id, device_name, param_key), grp).
                  \<not> configured (an_config ta) (device_id, param_key))
          (groupby (\<lambda>r. (r_device_id r, r_device_name r, r_param_key r)) (rows (an_data ta))))"
    unfolding analyze_trends_warnings_def trend_loop_warnings by (simp only: append_Nil)
  have c: "analyze_consumption_warnings oa =
     map (\<lambda>((analysis_date, device_id, device_name, param_key), grp). (device_id, param_key))
       (filter (\<lambda>((analysis_date, device_id, device_name, param_key), grp).
                  \<not> configured (an_config oa) (device_id, param_key))
          (groupby (\<lambda>r. (date_of r, r_device_id r, r_device_name r, r_param_key r))
             (rows (an_data oa))))"
    unfolding analyze_consumption_warnings_def consumption_loop_warnings by (simp only: append_Nil)
  have r: "\<forall>r \<in> set (analyze_quality qa). configured (an_config qa) (q_device_id r, q_param_key r)"
    "\<forall>r \<in> set (analyze_trends ta). configured (an_config ta) (tr_device_id r, tr_param_key r)"
    "\<forall>r \<in> set (analyze_consumption oa). configured (an_config oa) (o_device_id r, o_param_key r)"
    using analyze_quality_configured[of _ qa] analyze_trends_configured[of _ ta]
      analyze_consumption_configured[of _ oa]
    by blast+
  show ?thesis
    using q t c r analyze_quality_drop[of qa] analyze_trends_drop[of ta]
      analyze_consumption_drop[of oa]
    by blast
qed

lemma example_unconfigured_rows:
  "\<not> configured example_config (7, ''WATER'')"
  "\<not> configured example_config_14d (7, ''WATER'')"
  "map r_device_id (rows (an_data (quality_analyzer_init example_config example_partial_csv))) = [3, 3, 7]"
  "map r_device_id (rows (an_data (filter_and_sort example_trend_analyzer))) = [1, 1, 1, 1, 7]"
  "map r_device_id (rows (an_data (filter_and_sort example_ooh_analyzer))) = [1, 1, 3, 3, 7]"
  by code_simp+

lemma example_result_devices:
  "map q_device_id (analyze_quality (quality_analyzer_init example_config example_partial_csv)) = [3]"
  "map tr_device_id (analyze_trends (filter_and_sort example_trend_analyzer)) = [1]"
  "map o_device_id (analyze_consumption (filter_and_sort example_ooh_analyzer)) = [3]"
  by code_simp+

lemma example_warnings:
  "analyze_quality_warnings (quality_analyzer_init example_config example_partial_csv) = [(7, ''WATER'')]"
  "analyze_trends_warnings (filter_and_sort example_trend_analyzer) = [(7, ''WATER'')]"
  "analyze_consumption_warnings (filter_and_sort example_ooh_analyzer) = [(7, ''WATER'')]"
  by code_simp+

theorem unconfigured_groups_are_dropped_witness:
  "\<not> configured example_config (7, ''WATER'') \<and>
   map r_device_id (rows (an_data (quality_analyzer_init example_config example_partial_csv)))
     = [3, 3, 7] \<and>
   map q_device_id (analyze_quality (quality_analyzer_init example_config example_partial_csv))
     = [3] \<and>
   analyze_quality (drop_unconfigured (quality_analyzer_init example_config example_partial_csv))
     = analyze_quality (quality_analyzer_init example_config example_partial_csv) \<and>
   analyze_quality_warnings (quality_analyzer_init example_config example_partial_csv)
     = [(7, ''WATER'')] \<and>
   map r_device_id (rows (an_data (filter_and_sort example_trend_analyzer))) = [1, 1, 1, 1, 7] \<and>
   map tr_device_id (analyze_trends (filter_and_sort example_trend_analyzer)) = [1] \<and>
   analyze_trends (drop_unconfigured (filter_and_sort example_trend_analyzer))
     = analyze_trends (filter_and_sort example_trend_analyzer) \<and>
   analyze_trends_warnings (filter_and_sort example_trend_analyzer) = [(7, ''WATER'')] \<and>
   map r_device_id (rows (an_data (filter_and_sort example_ooh_analyzer))) = [1, 1, 3, 3, 7] \<and>
   map o_device_id (analyze_consumption (filter_and_sort example_ooh_analyzer)) = [3] \<and>
   analyze_consumption (drop_unconfigured (filter_and_sort example_ooh_analyzer))
     = analyze_consumption (filter_and_sort example_ooh_analyzer) \<and>
   analyze_consumption_warnings (filter_and_sort example_ooh_analyzer) = [(7, ''WATER'')]"
  using unconfigured_groups_are_dropped[of "quality_analyzer_init example_config example_partial_csv"
      "filter_and_sort example_trend_analyzer" "filter_and_sort example_ooh_analyzer"]
  by (simp add: example_unconfigured_rows example_result_devices example_warnings)

end
